theory Spec2Isabelle
  imports Complex_Main "HOL-Library.Sublist" "HOL-Library.Multiset"
begin

section \<open>JavaScript strings\<close>

text \<open>
  A JavaScript string is modelled as a \<open>string\<close> (a list of 8-bit characters, one per
  code unit). The string methods of the standard library that \<open>server/index.js\<close> calls
  are written out: \<open>includes\<close>, \<open>endsWith\<close>, \<open>trim\<close>, the two regular expressions
  of the file, and the truthiness of a string (the empty string is falsy).
\<close>

definition js_truthy :: "string \<Rightarrow> bool" where
  "js_truthy s = (s \<noteq> [])"

text \<open>\<open>a || b\<close> on two values that are a string or \<open>undefined\<close> (\<open>None\<close>).\<close>

definition js_or :: "string option \<Rightarrow> string option \<Rightarrow> string option" where
  "js_or a b = (case a of None \<Rightarrow> b | Some s \<Rightarrow> if js_truthy s then a else b)"

text \<open>\<open>s.includes(pat)\<close>: \<open>pat\<close> occurs in \<open>s\<close> as a contiguous substring.\<close>

fun js_includes :: "string \<Rightarrow> string \<Rightarrow> bool" where
  "js_includes [] pat = (pat = [])"
| "js_includes (c # cs) pat = (prefix pat (c # cs) \<or> js_includes cs pat)"

definition endsWith :: "string \<Rightarrow> string \<Rightarrow> bool" where
  "endsWith s suf = suffix suf s"

text \<open>
  \<open>s.trim()\<close> removes white space and line terminators at both ends; in the range of
  the model's characters these are TAB, LF, VT, FF, CR, SP and NBSP.
\<close>

definition is_js_space :: "char \<Rightarrow> bool" where
  "is_js_space c = (c \<in> set [CHR 0x09, CHR 0x0A, CHR 0x0B, CHR 0x0C, CHR 0x0D, CHR 0x20, CHR 0xA0])"

definition trim :: "string \<Rightarrow> string" where
  "trim s = rev (dropWhile is_js_space (rev (dropWhile is_js_space s)))"

text \<open>
  The first occurrence of \<open>pat\<close> in a string: the text before it and the text after it.
\<close>

fun split_at_first :: "string \<Rightarrow> string \<Rightarrow> (string \<times> string) option" where
  "split_at_first pat [] = (if pat = [] then Some ([], []) else None)"
| "split_at_first pat (c # cs) =
     (if prefix pat (c # cs) then Some ([], drop (length pat) (c # cs))
      else map_option (\<lambda>(b, a). (c # b, a)) (split_at_first pat cs))"

text \<open>
  \<open>s.replace(/pat/g, '')\<close> for a literal, non-empty pattern: every occurrence, found
  from left to right without overlap, is deleted.
\<close>

function remove_all :: "string \<Rightarrow> string \<Rightarrow> string" where
  "remove_all pat [] = []"
| "remove_all pat (c # cs) =
     (if pat \<noteq> [] \<and> prefix pat (c # cs) then remove_all pat (drop (length pat) (c # cs))
      else c # remove_all pat cs)"
  by pat_completeness auto
termination
  by (relation "measure (\<lambda>(pat, s). length s)") (auto simp: Suc_le_eq)

text \<open>
  \<open>responseText.match(/```solidity([\s\S]*?)```/)\<close>: the match starts at the first
  \<open>```solidity\<close> that has a \<open>```\<close> after it, and the lazy group \<open>match[1]\<close> is the text up
  to the first \<open>```\<close> that follows. \<open>None\<close> is JavaScript's \<open>null\<close> (no match).
\<close>

definition match_solidity_block :: "string \<Rightarrow> string option" where
  "match_solidity_block responseText =
     (case split_at_first ''```solidity'' responseText of
        None \<Rightarrow> None
      | Some (before, rest) \<Rightarrow>
          (case split_at_first ''```'' rest of
             None \<Rightarrow> None
           | Some (group1, after) \<Rightarrow> Some group1))"

section \<open>Values, errors and the outside world\<close>

text \<open>
  JSON values, as \<open>JSON.parse\<close> produces them and \<open>res.json\<close> sends them. An object is an
  association list of its keys in insertion order. Numbers are kept as integers: the
  server never computes with them.
\<close>

datatype json =
    JNull
  | JBool bool
  | JNum int
  | JStr string
  | JArr "json list"
  | JObj "(string \<times> json) list"

fun json_get :: "json \<Rightarrow> string \<Rightarrow> json option" where
  "json_get (JObj kvs) k = map_of kvs k"
| "json_get _ k = None"

fun json_keys :: "json \<Rightarrow> string list" where
  "json_keys (JObj kvs) = map fst kvs"
| "json_keys _ = []"

text \<open>
  A thrown value. \<open>ExecError\<close> is the error a rejected \<open>execPromise\<close> carries, with its
  \<open>stdout\<close> and \<open>stderr\<close> properties (\<open>None\<close> when the property is \<open>undefined\<close>, as
  for an error thrown before the child process was spawned).
\<close>

datatype error =
    Error string
  | TypeError string
  | ExecError "string option" "string option"

fun err_stdout :: "error \<Rightarrow> string option" where
  "err_stdout (ExecError out err) = out"
| "err_stdout _ = None"

fun err_stderr :: "error \<Rightarrow> string option" where
  "err_stderr (ExecError out err) = err"
| "err_stderr _ = None"

fun message :: "error \<Rightarrow> string" where
  "message (Error m) = m"
| "message (TypeError m) = m"
| "message (ExecError out err) = ''Command failed''"

text \<open>The reply of the explorer's \<open>getabi\<close> action: \<open>response.data\<close>.\<close>

record abi_reply =
  data_status :: string
  data_result :: string

text \<open>
  The directory tree that a clone leaves in the workspace, as \<open>fs.readdir\<close> and
  \<open>fs.lstat\<close> see it: a directory lists its entries in the order \<open>readdir\<close> returns
  them; \<open>NoReadDir\<close> is a directory whose \<open>readdir\<close> fails; \<open>NoStat\<close> is an entry
  whose \<open>lstat\<close> fails; \<open>File\<close> is anything that is not a directory.
\<close>

datatype fsnode =
    File
  | Dir "(string \<times> fsnode) list"
  | NoReadDir
  | NoStat

text \<open>
  Everything the server gets from outside is a field of the world: the configuration, and
  one function per external call giving the outcome of the call (\<open>Inl\<close> the thrown
  error, \<open>Inr\<close> the value).
  \<^item> \<open>explorer_getsourcecode url\<close>: the \<open>axios.get\<close> of the source lookup followed by
    \<open>response.data.result[0].SourceCode\<close> (\<open>None\<close> is \<open>undefined\<close>; \<open>Inl\<close> a failed
    request or a payload on which the property access throws);
  \<^item> \<open>explorer_getabi url\<close>: the \<open>axios.get\<close> of the ABI lookup;
  \<^item> \<open>generateContent prompt\<close>: \<open>model.generateContent\<close> followed by \<open>result.response.text()\<close>;
  \<^item> \<open>exec command cwd\<close>: \<open>execPromise\<close>, fulfilled with \<open>(stdout, stderr)\<close>;
  \<^item> \<open>JSON_parse\<close>: \<open>JSON.parse\<close>;
  \<^item> \<open>fs_writeFile\<close>, \<open>fs_readFile\<close>, \<open>fs_remove\<close>, \<open>fs_ensureDir\<close>: the file system
    calls (\<open>Some e\<close> when the call throws \<open>e\<close>); \<open>fs_remove\<close> and \<open>fs_ensureDir\<close> are
    given what is at the path when they are called;
  \<^item> \<open>git_clone url\<close>: \<open>simpleGit().clone\<close>, fulfilled with the tree it checked out;
  \<^item> \<open>latency path\<close>: the time that the scanner's callback for the file at \<open>path\<close>
    takes from its start to its end (its file read and its analysis), which decides in
    what order the callbacks of one batch finish.
\<close>

record world =
  dirname :: string
  ETHERSCAN_API_KEY :: string
  SEPOLIA_RPC_URL :: string
  explorer_getsourcecode :: "string \<Rightarrow> error + string option"
  explorer_getabi :: "string \<Rightarrow> error + abi_reply"
  generateContent :: "string \<Rightarrow> error + string"
  exec :: "string \<Rightarrow> string \<Rightarrow> error + string \<times> string"
  JSON_parse :: "string \<Rightarrow> error + json"
  fs_writeFile :: "string \<Rightarrow> string \<Rightarrow> error option"
  fs_readFile :: "string \<Rightarrow> error + string"
  fs_remove :: "fsnode option \<Rightarrow> error option"
  fs_ensureDir :: "fsnode option \<Rightarrow> error option"
  git_clone :: "string \<Rightarrow> error + fsnode"
  latency :: "string \<Rightarrow> nat"

text \<open>\<open>path.join(a, b)\<close> for the paths of this file, without normalising \<open>..\<close>.\<close>

definition path_join :: "string \<Rightarrow> string \<Rightarrow> string" where
  "path_join a b = a @ ''/'' @ b"

text \<open>\<open>path.relative(from, to)\<close> for a path \<open>to\<close> below \<open>from\<close>.\<close>

definition path_relative :: "string \<Rightarrow> string \<Rightarrow> string" where
  "path_relative from to = (if prefix (from @ ''/'') to then drop (length from + 1) to else to)"

definition fuzzingEnginePath :: "world \<Rightarrow> string" where
  "fuzzingEnginePath w = path_join (dirname w) ''../fuzzing_engine''"

section \<open>The adapters\<close>

subsection \<open>1. Static AI analysis\<close>

definition static_prompt :: string where
  "static_prompt = ''You are a world-class smart contract security auditor. Analyze the provided Solidity contract for vulnerabilities. Provide a response ONLY in a valid JSON format. The JSON object must have three keys: \"riskScore\" (string: \"Low\", \"Medium\", \"High\", or \"Critical\"), \"summary\" (string: a one-sentence summary), and \"findings\" (array of objects). Each finding object must have \"title\", \"description\", and \"severity\". Do not include any text, markdown, or apologies outside of the JSON object.''"

definition getStaticAnalysis :: "world \<Rightarrow> string \<Rightarrow> error + json" where
  "getStaticAnalysis w sourceCode =
     (let fullPrompt = static_prompt @ ''\<newline>\<newline>Here is the contract code:\<newline>'' @ sourceCode in
      case generateContent w fullPrompt of
        Inl e \<Rightarrow> Inl e
      | Inr responseText \<Rightarrow>
          JSON_parse w (trim (remove_all ''```'' (remove_all ''```json'' responseText))))"

subsection \<open>2. Honeypot check\<close>

definition getDynamicAnalysis :: "world \<Rightarrow> string \<Rightarrow> error + json" where
  "getDynamicAnalysis w address =
     (let command = ''./honeypot_check.sh '' @ SEPOLIA_RPC_URL w @ '' '' @ address in
      case exec w command (dirname w) of
        Inl e \<Rightarrow> Inl e
      | Inr (stdout, stderr) \<Rightarrow> JSON_parse w stdout)"

subsection \<open>3. Generic fuzzer\<close>

definition fuzz_outcome :: "string \<Rightarrow> string \<Rightarrow> json" where
  "fuzz_outcome st reason = JObj [(''status'', JStr st), (''reason'', JStr reason)]"

definition is_compiler_error :: "string \<Rightarrow> bool" where
  "is_compiler_error errorLog =
     (js_includes errorLog ''Compiler error'' \<or> js_includes errorLog ''compilation failed'')"

text \<open>The \<open>command\<close> of \<open>getGenericFuzzingAnalysis\<close>.\<close>

definition generic_fuzz_command :: "string \<Rightarrow> string" where
  "generic_fuzz_command address =
     ''TARGET_CONTRACT='' @ address @ '' forge test --fuzz-runs 256 --match-contract GenericFuzzer''"

definition getGenericFuzzingAnalysis :: "world \<Rightarrow> string \<Rightarrow> error + json" where
  "getGenericFuzzingAnalysis w address =
     (let command = generic_fuzz_command address in
      case exec w command (fuzzingEnginePath w) of
        Inr out \<Rightarrow> Inr (fuzz_outcome ''passed'' ''All generic invariants passed.'')
      | Inl err \<Rightarrow>
          (case js_or (err_stdout err) (err_stderr err) of
             None \<Rightarrow> Inl (TypeError ''Cannot read properties of undefined (reading includes)'')
           | Some errorLog \<Rightarrow>
               if is_compiler_error errorLog
               then Inr (fuzz_outcome ''incompatible''
                          ''Generic test suite was not compatible with this contract.'')
               else Inr (fuzz_outcome ''failed''
                          (''Generic invariant violated. Details: '' @ errorLog))))"

subsection \<open>4. to 7. The AI-driven fuzzer\<close>

definition getContractAbi :: "world \<Rightarrow> string \<Rightarrow> error + string" where
  "getContractAbi w address =
     (case explorer_getabi w
             (''https://api-sepolia.etherscan.io/api?module=contract&action=getabi&address=''
              @ address @ ''&apikey='' @ ETHERSCAN_API_KEY w) of
        Inl e \<Rightarrow> Inl e
      | Inr data \<Rightarrow>
          if data_status data = ''0'' then Inl (Error ''ABI not found for this contract.'')
          else Inr (data_result data))"

definition fuzz_prompt :: string where
  "fuzz_prompt = ''You are an expert smart contract security engineer specializing in writing Foundry fuzz tests. Analyze the functions in the provided ABI and write a complete, ready-to-run Foundry test file (`.t.sol`) that implements critical fuzz tests for state-changing functions. The test contract should be named \"AIGeneratedFuzzer\". Focus on invariants for functions involving value transfers, minting/burning, or critical parameter changes.''"

text \<open>
  The part of \<open>generateFuzzTest\<close> after the model has answered: the extraction of the
  test code from the response text.
\<close>

definition extract_test_code :: "string \<Rightarrow> error + string" where
  "extract_test_code responseText =
     (case match_solidity_block responseText of
        None \<Rightarrow>
          Inl (Error (''AI failed to generate a valid Solidity code block. Response was: ''
                      @ responseText))
      | Some group1 \<Rightarrow>
          if \<not> js_truthy group1
          then Inl (Error (''AI failed to generate a valid Solidity code block. Response was: ''
                           @ responseText))
          else Inr (trim group1))"

definition generateFuzzTest :: "world \<Rightarrow> string \<Rightarrow> error + string" where
  "generateFuzzTest w abi =
     (let fullPrompt = fuzz_prompt @ ''\<newline>\<newline>Here is the ABI:\<newline>'' @ abi in
      case generateContent w fullPrompt of
        Inl e \<Rightarrow> Inl e
      | Inr responseText \<Rightarrow> extract_test_code responseText)"

record fuzzer_output =
  fo_status :: string
  fo_log :: string

definition runAIGeneratedFuzzer :: "world \<Rightarrow> string \<Rightarrow> string \<Rightarrow> error + fuzzer_output" where
  "runAIGeneratedFuzzer w address testCode =
     (let testFilePath = path_join (fuzzingEnginePath w) ''test/AIGeneratedFuzzer.t.sol'' in
      case fs_writeFile w testFilePath testCode of
        Some e \<Rightarrow> Inl e
      | None \<Rightarrow>
          (let command = ''TARGET_CONTRACT='' @ address @
                 '' forge test --match-path test/AIGeneratedFuzzer.t.sol --fuzz-runs 256'' in
           case exec w command (fuzzingEnginePath w) of
             Inr (stdout, stderr) \<Rightarrow> Inr \<lparr>fo_status = ''passed'', fo_log = stdout\<rparr>
           | Inl err \<Rightarrow>
               (case js_or (err_stdout err) (err_stderr err) of
                  None \<Rightarrow> Inl (TypeError ''Cannot read properties of undefined (reading includes)'')
                | Some errorLog \<Rightarrow>
                    if is_compiler_error errorLog
                    then Inr \<lparr>fo_status = ''incompatible'',
                              fo_log = ''AI-generated test was not compatible or failed to compile.''\<rparr>
                    else Inr \<lparr>fo_status = ''failed'', fo_log = errorLog\<rparr>)))"

definition interpret_prompt :: string where
  "interpret_prompt = ''You are an expert smart contract security analyst. I will provide you with a failed test log from a Foundry fuzz test. Read the log, identify the function that failed and the specific inputs (the \"counterexample\") that caused the failure. Explain the likely security vulnerability in simple, clear English.''"

definition interpretFuzzFailure :: "world \<Rightarrow> string \<Rightarrow> error + string" where
  "interpretFuzzFailure w failureLog =
     generateContent w (interpret_prompt @ ''\<newline>\<newline>Here is the failed test log:\<newline>'' @ failureLog)"

section \<open>The server's state\<close>

text \<open>
  What a request changes and a later observer can see: what is at the path of the
  workspace directory \<open>temp_repo\<close> (\<open>None\<close> when nothing is there), the lines written by
  \<open>console.error\<close>, and the timeline of the repository scanner (each \<open>Promise.all\<close> over a
  batch and each \<open>setTimeout\<close> pause, in the order they happen).
\<close>

datatype event = BatchRun "string list" | Pause nat

record server_state =
  workspace :: "fsnode option"
  console :: "string list"
  timeline :: "event list"

section \<open>8. and 9. The repository scanner\<close>

definition BATCH_SIZE :: nat where
  "BATCH_SIZE = 5"

definition DELAY_MS :: nat where
  "DELAY_MS = 2000"

text \<open>
  \<open>findSolidityFiles\<close> returns the paths found and the lines it logged. \<open>walk_entries\<close>
  is the \<open>for\<close> loop over the entries of one directory, with the local \<open>result\<close> so
  far: an \<open>lstat\<close> that throws leaves the loop for the \<open>catch\<close>, which logs, and the
  function returns what \<open>result\<close> holds at that moment. A \<open>readdir\<close> that throws (on
  anything but a readable directory) is caught in the same way with \<open>result\<close> empty.
  The last two equations of \<open>walk_entries\<close> are the branch \<open>stat.isDirectory()\<close>, for a
  directory that can be read and for one that cannot.
\<close>

fun findSolidityFiles :: "string \<Rightarrow> fsnode \<Rightarrow> string list \<times> string list"
  and walk_entries ::
    "string \<Rightarrow> (string \<times> fsnode) list \<Rightarrow> string list \<Rightarrow> string list \<Rightarrow> string list \<times> string list"
where
  "findSolidityFiles startPath (Dir files) = walk_entries startPath files [] []"
| "findSolidityFiles startPath NoReadDir =
     ([], [''Could not read directory '' @ startPath @ '': ''])"
| "findSolidityFiles startPath File =
     ([], [''Could not read directory '' @ startPath @ '': ''])"
| "findSolidityFiles startPath NoStat =
     ([], [''Could not read directory '' @ startPath @ '': ''])"
| "walk_entries startPath [] result out = (result, out)"
| "walk_entries startPath ((file, NoStat) # rest) result out =
     (result, out @ [''Could not read directory '' @ startPath @ '': ''])"
| "walk_entries startPath ((file, File) # rest) result out =
     (let filename = path_join startPath file in
      if endsWith filename ''.sol'' then walk_entries startPath rest (result @ [filename]) out
      else walk_entries startPath rest result out)"
| "walk_entries startPath ((file, Dir files) # rest) result out =
     (let filename = path_join startPath file in
      case findSolidityFiles filename (Dir files) of
        (sub, out') \<Rightarrow> walk_entries startPath rest (result @ sub) (out @ out'))"
| "walk_entries startPath ((file, NoReadDir) # rest) result out =
     (let filename = path_join startPath file in
      case findSolidityFiles filename NoReadDir of
        (sub, out') \<Rightarrow> walk_entries startPath rest (result @ sub) (out @ out'))"

text \<open>
  The callback mapped over a batch. \<open>analyze_file_try\<close> is its \<open>try\<close> block: \<open>Inr None\<close>
  when it returns without pushing, \<open>Inr (Some f)\<close> when it pushes the finding \<open>f\<close>.
  \<open>analyze_file\<close> adds the \<open>catch\<close>: the settled promise of the callback and the line
  it logged.
\<close>

definition analyze_file_try :: "world \<Rightarrow> string \<Rightarrow> string \<Rightarrow> error + json option" where
  "analyze_file_try w tempDir filePath =
     (case fs_readFile w filePath of
        Inl e \<Rightarrow> Inl e
      | Inr fileContent \<Rightarrow>
          if length (trim fileContent) < 50 then Inr None
          else (case getStaticAnalysis w fileContent of
                  Inl e \<Rightarrow> Inl e
                | Inr staticResult \<Rightarrow>
                    Inr (Some (JObj [(''file'', JStr (path_relative tempDir filePath)),
                                     (''analysis'', staticResult)]))))"

definition analyze_file ::
    "world \<Rightarrow> string \<Rightarrow> string \<Rightarrow> (error + json option) \<times> string list" where
  "analyze_file w tempDir filePath =
     (case analyze_file_try w tempDir filePath of
        Inl e \<Rightarrow> (Inr None, [''Skipping analysis for '' @ path_relative tempDir filePath @ ''.''])
      | Inr pushed \<Rightarrow> (Inr pushed, []))"

text \<open>\<open>Promise.all\<close>: rejected with the first rejection, else fulfilled with all values.\<close>

fun promise_all :: "(error + 'a) list \<Rightarrow> error + 'a list" where
  "promise_all [] = Inr []"
| "promise_all (Inl e # ps) = Inl e"
| "promise_all (Inr v # ps) = (case promise_all ps of Inl e \<Rightarrow> Inl e | Inr vs \<Rightarrow> Inr (v # vs))"

text \<open>
  The callbacks of one batch are started in the order of the batch and run concurrently;
  each pushes its finding, or logs its line, when it comes to its end. They end in the
  order of their latencies, those of equal latency in the order they were started.
\<close>

definition completion_order :: "world \<Rightarrow> string list \<Rightarrow> string list" where
  "completion_order w batch = sort_key (latency w) batch"

text \<open>
  The \<open>for (let i = 0; i < files.length; i += BATCH_SIZE)\<close> loop, from index \<open>i\<close> with
  the \<open>findings\<close> pushed so far. \<open>tasks\<close> are the callbacks of the batch in the order
  they end, so that the pushes and the console lines of a batch happen in that order,
  and \<open>Promise.all\<close> is rejected with the rejection that happens first.
\<close>

function batch_loop ::
    "world \<Rightarrow> string \<Rightarrow> string list \<Rightarrow> nat \<Rightarrow> json list \<Rightarrow> server_state
       \<Rightarrow> (error + json list) \<times> server_state" where
  "batch_loop w tempDir files i findings s =
     (if i < length files then
        (let batch = take BATCH_SIZE (drop i files);
             tasks = map (analyze_file w tempDir) (completion_order w batch);
             s1 = s\<lparr>console := console s @ concat (map snd tasks),
                    timeline := timeline s @ [BatchRun batch]\<rparr>
         in case promise_all (map fst tasks) of
              Inl e \<Rightarrow> (Inl e, s1)
            | Inr pushed \<Rightarrow>
                (let s2 = (if i + BATCH_SIZE < length files
                           then s1\<lparr>timeline := timeline s1 @ [Pause DELAY_MS]\<rparr> else s1)
                 in batch_loop w tempDir files (i + BATCH_SIZE)
                      (findings @ List.map_filter id pushed) s2))
      else (Inr findings, s))"
  by pat_completeness auto
termination
  by (relation "measure (\<lambda>(w, tempDir, files, i, findings, s). length files - i)")
     (auto simp: BATCH_SIZE_def)

definition analyzeGitHubRepo ::
    "world \<Rightarrow> string \<Rightarrow> server_state \<Rightarrow> (error + json list) \<times> server_state" where
  "analyzeGitHubRepo w repoUrl s =
     (let tempDir = path_join (dirname w) ''temp_repo'' in
      case fs_remove w (workspace s) of
        Some e \<Rightarrow> (Inl e, s)
      | None \<Rightarrow>
          (let s1 = s\<lparr>workspace := None\<rparr> in
           case fs_ensureDir w (workspace s1) of
             Some e \<Rightarrow> (Inl e, s1)
           | None \<Rightarrow>
               (let s2 = s1\<lparr>workspace := Some (Dir [])\<rparr> in
                case git_clone w repoUrl of
                  Inl e \<Rightarrow> (Inl e, s2)
                | Inr tree \<Rightarrow>
                    (let s3 = s2\<lparr>workspace := Some tree\<rparr> in
                     case findSolidityFiles tempDir tree of
                       (files, out) \<Rightarrow>
                         (case batch_loop w tempDir files 0 [] (s3\<lparr>console := console s3 @ out\<rparr>) of
                            (Inl e, s4) \<Rightarrow> (Inl e, s4)
                          | (Inr findings, s4) \<Rightarrow>
                              (case fs_remove w (workspace s4) of
                                 Some e \<Rightarrow> (Inl e, s4)
                               | None \<Rightarrow> (Inr findings, s4\<lparr>workspace := None\<rparr>)))))))"

subsection \<open>Observing a scan\<close>




text \<open>
  The timeline of the loop over a list of files in closed form: nothing for no file;
  otherwise a batch of the first \<open>BATCH_SIZE\<close> files, and, when files remain after
  it, a pause and the timeline of the remaining files. \<open>batch_loop_closed_form\<close> below
  proves that this is what \<open>batch_loop\<close> appends to the timeline.
\<close>

function schedule :: "string list \<Rightarrow> event list" where
  "schedule files =
     (if files = [] then []
      else BatchRun (take BATCH_SIZE files) #
             (if BATCH_SIZE < length files
              then Pause DELAY_MS # schedule (drop BATCH_SIZE files) else []))"
  by pat_completeness auto
termination
  by (relation "measure length") (auto simp: BATCH_SIZE_def)

text \<open>
  The files of a scan in the order in which their callbacks end: batch after batch, and
  within each batch in its completion order.
\<close>

function completion_sequence :: "world \<Rightarrow> string list \<Rightarrow> string list" where
  "completion_sequence w files =
     (if files = [] then []
      else completion_order w (take BATCH_SIZE files)
             @ completion_sequence w (drop BATCH_SIZE files))"
  by pat_completeness auto
termination
  by (relation "measure (\<lambda>(w, files). length files)") (auto simp: BATCH_SIZE_def)

text \<open>
  What one file contributes to the findings: the finding its callback pushes, if its
  \<open>try\<close> block gets that far.
\<close>

definition finding_of :: "world \<Rightarrow> string \<Rightarrow> string \<Rightarrow> json option" where
  "finding_of w tempDir filePath =
     (case analyze_file_try w tempDir filePath of Inr pushed \<Rightarrow> pushed | Inl e \<Rightarrow> None)"

text \<open>
  A tree with every unreadable directory replaced by an empty directory, to state that
  the walk treats the one as the other.
\<close>

fun unreadable_as_empty :: "fsnode \<Rightarrow> fsnode" where
  "unreadable_as_empty NoReadDir = Dir []"
| "unreadable_as_empty (Dir files) = Dir (map (\<lambda>(file, node). (file, unreadable_as_empty node)) files)"
| "unreadable_as_empty File = File"
| "unreadable_as_empty NoStat = NoStat"

section \<open>The unified endpoint\<close>

record request =
  inputType :: "string option"
  input :: "string option"

datatype response = Response nat json

definition error_body :: "string \<Rightarrow> json" where
  "error_body m = JObj [(''error'', JStr m)]"

text \<open>\<open>Promise.allSettled\<close> keeps each promise's outcome; the merge reads it.\<close>

definition settled_or :: "error + json \<Rightarrow> json \<Rightarrow> json" where
  "settled_or r fallback = (case r of Inr v \<Rightarrow> v | Inl reason \<Rightarrow> fallback)"

text \<open>The \<open>try\<close> block of the address case.\<close>

definition ai_fuzzing_try :: "world \<Rightarrow> string \<Rightarrow> string \<Rightarrow> error + json" where
  "ai_fuzzing_try w address abi =
     (case generateFuzzTest w abi of
        Inl e \<Rightarrow> Inl e
      | Inr testCode \<Rightarrow>
          (case runAIGeneratedFuzzer w address testCode of
             Inl e \<Rightarrow> Inl e
           | Inr fuzzerOutput \<Rightarrow>
               if fo_status fuzzerOutput = ''failed'' then
                 (case interpretFuzzFailure w (fo_log fuzzerOutput) of
                    Inl e \<Rightarrow> Inl e
                  | Inr interpretation \<Rightarrow> Inr (fuzz_outcome ''failed'' interpretation))
               else Inr (fuzz_outcome (fo_status fuzzerOutput) (fo_log fuzzerOutput))))"

text \<open>
  The first two statements of the address case: the source lookup and the check that
  the source is truthy.
\<close>

definition fetch_source :: "world \<Rightarrow> string \<Rightarrow> error + string" where
  "fetch_source w address =
     (case explorer_getsourcecode w
             (''https://api-sepolia.etherscan.io/api?module=contract&action=getsourcecode&address=''
              @ address @ ''&apikey='' @ ETHERSCAN_API_KEY w) of
        Inl e \<Rightarrow> Inl e
      | Inr None \<Rightarrow> Inl (Error ''Source code not found.'')
      | Inr (Some sourceCode) \<Rightarrow>
          if \<not> js_truthy sourceCode then Inl (Error ''Source code not found.'')
          else Inr sourceCode)"

definition analyze_address :: "world \<Rightarrow> string \<Rightarrow> error + json" where
  "analyze_address w address =
     (case fetch_source w address of
        Inl e \<Rightarrow> Inl e
      | Inr sourceCode \<Rightarrow>
          (case getContractAbi w address of
             Inl e \<Rightarrow> Inl e
           | Inr abi \<Rightarrow>
               (let staticResult = getStaticAnalysis w sourceCode;
                    dynamicResult = getDynamicAnalysis w address;
                    genericFuzzResult = getGenericFuzzingAnalysis w address;
                    aiFuzzing =
                      (case ai_fuzzing_try w address abi of
                         Inr v \<Rightarrow> v
                       | Inl err \<Rightarrow>
                           fuzz_outcome ''incompatible'' ''AI-driven fuzzing process failed to run.'')
                in Inr (JObj
                     [(''reportType'', JStr ''address''),
                      (''staticAnalysis'', settled_or staticResult JNull),
                      (''dynamicAnalysis'', settled_or dynamicResult
                          (JObj [(''isHoneypot'', JBool False),
                                 (''reason'', JStr ''Honeypot check failed.'')])),
                      (''genericFuzzing'', settled_or genericFuzzResult
                          (fuzz_outcome ''incompatible'' ''Generic fuzzing failed.'')),
                      (''aiFuzzing'', aiFuzzing)]))))"

text \<open>
  The \<open>switch\<close> inside the handler's \<open>try\<close>: \<open>Inl\<close> an error thrown to the handler's
  \<open>catch\<close>, \<open>Inr\<close> the response sent.
\<close>

definition route ::
    "world \<Rightarrow> string \<Rightarrow> string \<Rightarrow> server_state \<Rightarrow> (error + response) \<times> server_state" where
  "route w it inp s =
     (if it = ''address'' then
        (case analyze_address w inp of
           Inl e \<Rightarrow> (Inl e, s)
         | Inr finalReport \<Rightarrow> (Inr (Response 200 finalReport), s))
      else if it = ''github'' then
        (case analyzeGitHubRepo w inp s of
           (Inl e, s') \<Rightarrow> (Inl e, s')
         | (Inr repoResults, s') \<Rightarrow>
             (Inr (Response 200 (JObj [(''reportType'', JStr ''repo''),
                                       (''files'', JArr repoResults)])), s'))
      else if it = ''text'' then
        (case getStaticAnalysis w inp of
           Inl e \<Rightarrow> (Inl e, s)
         | Inr textResult \<Rightarrow>
             (Inr (Response 200 (JObj [(''reportType'', JStr ''text''),
                     (''files'', JArr [JObj [(''file'', JStr ''PastedCode.sol''),
                                             (''analysis'', textResult)]])])), s))
      else (Inr (Response 400 (error_body ''Invalid input type.'')), s))"

text \<open>
  The handler of \<open>POST /analyze\<close>. A field of the body is a string or absent
  (\<open>undefined\<close>, \<open>None\<close>); \<open>!x\<close> holds of an absent field and of the empty string.
\<close>

definition js_not :: "string option \<Rightarrow> bool" where
  "js_not x = (case x of None \<Rightarrow> True | Some v \<Rightarrow> \<not> js_truthy v)"

definition analyze :: "world \<Rightarrow> request \<Rightarrow> server_state \<Rightarrow> response \<times> server_state" where
  "analyze w req s =
     (if js_not (inputType req) \<or> js_not (input req)
      then (Response 400 (error_body ''Input type and value are required.''), s)
      else
        (case (inputType req, input req) of
           (Some it, Some inp) \<Rightarrow>
             (case route w it inp s of
                (Inr r, s') \<Rightarrow> (r, s')
              | (Inl e, s') \<Rightarrow>
                  (Response 500 (error_body ''Failed to complete analysis. Please check your input.''),
                   s'\<lparr>console := console s' @ [''Analysis failed: '' @ message e]\<rparr>))
         | _ \<Rightarrow> (Response 400 (error_body ''Input type and value are required.''), s)))"

section \<open>Concrete worlds\<close>

text \<open>
  Worlds and states on which the theorems below are exercised. In \<open>quiet_world\<close> the
  explorer knows the contract (source and ABI) and every other external call fails; in
  \<open>answering_world\<close> the inference service, \<open>JSON.parse\<close> and the child processes
  succeed.
\<close>

definition quiet_world :: world where
  "quiet_world =
     \<lparr>dirname = ''/srv/server'', ETHERSCAN_API_KEY = ''KEY'', SEPOLIA_RPC_URL = ''http://rpc'',
      explorer_getsourcecode = (\<lambda>url. Inr (Some ''contract C {}'')),
      explorer_getabi = (\<lambda>url. Inr \<lparr>data_status = ''1'', data_result = ''[]''\<rparr>),
      generateContent = (\<lambda>prompt. Inl (Error ''inference service unavailable'')),
      exec = (\<lambda>command cwd. Inl (ExecError None None)),
      JSON_parse = (\<lambda>text. Inl (Error ''Unexpected token'')),
      fs_writeFile = (\<lambda>path content. None),
      fs_readFile = (\<lambda>path. Inl (Error ''ENOENT'')),
      fs_remove = (\<lambda>node. None),
      fs_ensureDir = (\<lambda>node. None),
      git_clone = (\<lambda>url. Inl (Error ''clone failed'')),
      latency = (\<lambda>path. 0)\<rparr>"

definition answering_world :: world where
  "answering_world =
     quiet_world\<lparr>generateContent := (\<lambda>prompt. Inr ''{}''),
                 JSON_parse := (\<lambda>text. Inr (JObj [])),
                 exec := (\<lambda>command cwd. Inr (''{}'', []))\<rparr>"

definition idle :: server_state where
  "idle = \<lparr>workspace = None, console = [], timeline = []\<rparr>"

definition all_failed_report :: json where
  "all_failed_report =
     JObj [(''reportType'', JStr ''address''),
           (''staticAnalysis'', JNull),
           (''dynamicAnalysis'', JObj [(''isHoneypot'', JBool False),
                                       (''reason'', JStr ''Honeypot check failed.'')]),
           (''genericFuzzing'', JObj [(''status'', JStr ''incompatible''),
                                      (''reason'', JStr ''Generic fuzzing failed.'')]),
           (''aiFuzzing'', JObj [(''status'', JStr ''incompatible''),
                                 (''reason'', JStr ''AI-driven fuzzing process failed to run.'')])]"

definition answering_report :: json where
  "answering_report =
     JObj [(''reportType'', JStr ''address''),
           (''staticAnalysis'', JObj []),
           (''dynamicAnalysis'', JObj []),
           (''genericFuzzing'', JObj [(''status'', JStr ''passed''),
                                      (''reason'', JStr ''All generic invariants passed.'')]),
           (''aiFuzzing'', JObj [(''status'', JStr ''incompatible''),
                                 (''reason'', JStr ''AI-driven fuzzing process failed to run.'')])]"



definition vault_source :: string where
  "vault_source = ''contract Vault { function withdraw(uint256 amount) external {} }''"

definition token_source :: string where
  "token_source = ''contract Token { function mint(address to, uint256 v) external {} } // v2''"

definition pool_source :: string where
  "pool_source = ''contract Pool { function swap(uint256 amountIn) external returns (uint256) {} }''"

definition sample_tree :: fsnode where
  "sample_tree =
     Dir [(''README.md'', File),
          (''contracts'', Dir [(''Vault.sol'', File), (''Broken.sol'', File), (''Tiny.sol'', File)]),
          (''private'', NoReadDir),
          (''Token.sol'', File),
          (''Pool.sol'', File)]"

definition repo_world :: world where
  "repo_world =
     quiet_world\<lparr>
       git_clone := (\<lambda>url. Inr sample_tree),
       fs_readFile := (\<lambda>path.
         if path = ''/srv/server/temp_repo/contracts/Vault.sol'' then Inr vault_source
         else if path = ''/srv/server/temp_repo/contracts/Tiny.sol'' then Inr ''contract T {}''
         else if path = ''/srv/server/temp_repo/Token.sol'' then Inr token_source
         else if path = ''/srv/server/temp_repo/Pool.sol'' then Inr pool_source
         else Inl (Error ''EACCES'')),
       generateContent := (\<lambda>prompt.
         if last prompt = CHR ''}'' then Inr ''{}'' else Inl (Error ''quota exceeded'')),
       JSON_parse := (\<lambda>text. Inr (JObj [])),
       latency := (\<lambda>path.
         if path = ''/srv/server/temp_repo/contracts/Vault.sol'' then 900
         else if path = ''/srv/server/temp_repo/Token.sol'' then 500
         else if path = ''/srv/server/temp_repo/Pool.sol'' then 300
         else 5)\<rparr>"

definition stale :: server_state where
  "stale = idle\<lparr>workspace := Some (Dir [(''leftover.txt'', File)])\<rparr>"

section \<open>The request dispatcher\<close>

text \<open>
  C10. A request whose \<open>input\<close> is present and equal to the empty string, or whose
  \<open>inputType\<close> is the empty string, is answered with status 400 and the body
  \<open>{error: 'Input type and value are required.'}\<close>. The answer is the same in every world
  and the server's state is unchanged: no pipeline has run.
\<close>

theorem empty_field_rejected:
  assumes "inputType req = Some [] \<or> input req = Some []"
  shows "analyze w req s =
           (Response 400 (JObj [(''error'', JStr ''Input type and value are required.'')]), s)"
  using assms by (auto simp: analyze_def js_not_def js_truthy_def error_body_def)

text \<open>The theorem at the request \<open>{inputType: 'address', input: ''}\<close>.\<close>

theorem empty_field_rejected_witness:
  "(inputType \<lparr>inputType = Some ''address'', input = Some []\<rparr> = Some [] \<or>
    input \<lparr>inputType = Some ''address'', input = Some []\<rparr> = Some []) \<and>
   analyze quiet_world \<lparr>inputType = Some ''address'', input = Some []\<rparr> idle =
     (Response 400 (JObj [(''error'', JStr ''Input type and value are required.'')]), idle)"
proof -
  have h: "inputType \<lparr>inputType = Some ''address'', input = Some []\<rparr> = Some [] \<or>
           input \<lparr>inputType = Some ''address'', input = Some []\<rparr> = Some []" by simp
  show ?thesis using h empty_field_rejected [OF h, of quiet_world idle] by simp
qed

section \<open>The address orchestrator\<close>

lemma analyze_address_report:
  assumes "analyze w req s = (Response 200 r, s')" and "inputType req = Some ''address''"
  shows "\<exists>a. input req = Some a \<and> analyze_address w a = Inr r \<and> s' = s"
  using assms
  by (auto simp: analyze_def js_not_def route_def error_body_def
           split: if_splits option.splits sum.splits prod.splits)

lemma analyze_address_ok:
  assumes "analyze_address w a = Inr r" and "js_truthy a"
  shows "analyze w \<lparr>inputType = Some ''address'', input = Some a\<rparr> s = (Response 200 r, s)"
  using assms
  by (auto simp: analyze_def js_not_def route_def js_truthy_def)

lemma analyze_nonempty_input:
  assumes "analyze w req s = (Response 200 r, s')" and "input req = Some a"
  shows "js_truthy a"
  using assms by (auto simp: analyze_def js_not_def error_body_def split: if_splits)

lemma quiet_fetch: "fetch_source quiet_world ''0xabc'' = Inr ''contract C {}''"
  by (simp add: fetch_source_def quiet_world_def js_truthy_def)

lemma quiet_abi: "getContractAbi quiet_world ''0xabc'' = Inr ''[]''"
  by (simp add: getContractAbi_def quiet_world_def)

lemma quiet_static:
  "getStaticAnalysis quiet_world src = Inl (Error ''inference service unavailable'')"
  by (simp add: getStaticAnalysis_def quiet_world_def)

lemma quiet_dynamic: "getDynamicAnalysis quiet_world a = Inl (ExecError None None)"
  by (simp add: getDynamicAnalysis_def quiet_world_def)

lemma quiet_generic:
  "getGenericFuzzingAnalysis quiet_world a =
     Inl (TypeError ''Cannot read properties of undefined (reading includes)'')"
  by (simp add: getGenericFuzzingAnalysis_def quiet_world_def js_or_def)

lemma quiet_ai:
  "ai_fuzzing_try quiet_world a abi = Inl (Error ''inference service unavailable'')"
  by (simp add: ai_fuzzing_try_def generateFuzzTest_def quiet_world_def)

lemma quiet_analyze:
  "analyze quiet_world \<lparr>inputType = Some ''address'', input = Some ''0xabc''\<rparr> idle =
     (Response 200 all_failed_report, idle)"
  by (rule analyze_address_ok)
     (simp_all add: analyze_address_def quiet_fetch quiet_abi quiet_static quiet_dynamic
        quiet_generic quiet_ai settled_or_def fuzz_outcome_def all_failed_report_def js_truthy_def)

lemma answering_analyze:
  "analyze answering_world \<lparr>inputType = Some ''address'', input = Some ''0xabc''\<rparr> idle =
     (Response 200 answering_report, idle)"
  by (rule analyze_address_ok)
     (simp_all add: analyze_address_def fetch_source_def getContractAbi_def getStaticAnalysis_def
        getDynamicAnalysis_def getGenericFuzzingAnalysis_def ai_fuzzing_try_def
        generateFuzzTest_def extract_test_code_def match_solidity_block_def
        answering_world_def quiet_world_def settled_or_def fuzz_outcome_def
        answering_report_def js_truthy_def)

text \<open>
  C1. The request for an address whose source the explorer returns and whose ABI lookup
  answers with status \<open>"0"\<close> (not found): \<open>getContractAbi\<close> throws before the \<open>try\<close> block of
  the AI-driven fuzzer is entered, the handler's \<open>catch\<close> receives the error, and the
  request is answered with status 500 and no report.
\<close>

theorem abi_not_found_fails_request:
  "analyze (quiet_world\<lparr>explorer_getabi :=
              (\<lambda>url. Inr \<lparr>data_status = ''0'', data_result = ''Contract source code not verified''\<rparr>)\<rparr>)
           \<lparr>inputType = Some ''address'', input = Some ''0xabc''\<rparr> idle =
     (Response 500 (JObj [(''error'', JStr ''Failed to complete analysis. Please check your input.'')]),
      idle\<lparr>console := [''Analysis failed: ABI not found for this contract.'']\<rparr>)"
  by (simp add: analyze_def js_not_def js_truthy_def route_def analyze_address_def fetch_source_def
        getContractAbi_def quiet_world_def idle_def error_body_def)

text \<open>
  C2. Every address request that is answered with a report has fetched the source and
  the ABI, and its report has the keys \<open>reportType\<close>, \<open>staticAnalysis\<close>,
  \<open>dynamicAnalysis\<close>, \<open>genericFuzzing\<close> and \<open>aiFuzzing\<close>; the field of an engine that failed
  holds the engine's fallback: \<open>null\<close> for the static analysis, the honeypot fallback for
  the dynamic analysis, the two \<open>incompatible\<close> outcomes for the generic fuzzer and
  for an error thrown in the AI-driven fuzzer's \<open>try\<close> block.
\<close>

theorem address_report_populated:
  assumes "inputType req = Some ''address''" and "input req = Some a"
      and "analyze w req s = (Response 200 r, s')"
  shows "\<exists>sourceCode abi.
           fetch_source w a = Inr sourceCode \<and> getContractAbi w a = Inr abi \<and>
           json_keys r = [''reportType'', ''staticAnalysis'', ''dynamicAnalysis'',
                          ''genericFuzzing'', ''aiFuzzing''] \<and>
           (\<forall>e. getStaticAnalysis w sourceCode = Inl e \<longrightarrow>
                json_get r ''staticAnalysis'' = Some JNull) \<and>
           (\<forall>e. getDynamicAnalysis w a = Inl e \<longrightarrow>
                json_get r ''dynamicAnalysis'' =
                  Some (JObj [(''isHoneypot'', JBool False),
                              (''reason'', JStr ''Honeypot check failed.'')])) \<and>
           (\<forall>e. getGenericFuzzingAnalysis w a = Inl e \<longrightarrow>
                json_get r ''genericFuzzing'' =
                  Some (JObj [(''status'', JStr ''incompatible''),
                              (''reason'', JStr ''Generic fuzzing failed.'')])) \<and>
           (\<forall>e. ai_fuzzing_try w a abi = Inl e \<longrightarrow>
                json_get r ''aiFuzzing'' =
                  Some (JObj [(''status'', JStr ''incompatible''),
                              (''reason'', JStr ''AI-driven fuzzing process failed to run.'')]))"
proof -
  from analyze_address_report [OF assms(3) assms(1)] assms(2)
  have r: "analyze_address w a = Inr r" by simp
  then obtain sourceCode abi where
    src: "fetch_source w a = Inr sourceCode" and abi: "getContractAbi w a = Inr abi"
    by (auto simp: analyze_address_def split: sum.splits)
  from r src abi show ?thesis
    by (auto simp: analyze_address_def Let_def settled_or_def fuzz_outcome_def)
qed

text \<open>
  The theorem in \<open>quiet_world\<close>, where all four engines fail and the request is still
  answered with a report: every field holds its fallback.
\<close>

theorem address_report_populated_witness:
  "analyze quiet_world \<lparr>inputType = Some ''address'', input = Some ''0xabc''\<rparr> idle =
     (Response 200 all_failed_report, idle) \<and>
   getStaticAnalysis quiet_world ''contract C {}'' = Inl (Error ''inference service unavailable'') \<and>
   getDynamicAnalysis quiet_world ''0xabc'' = Inl (ExecError None None) \<and>
   getGenericFuzzingAnalysis quiet_world ''0xabc'' =
     Inl (TypeError ''Cannot read properties of undefined (reading includes)'') \<and>
   ai_fuzzing_try quiet_world ''0xabc'' ''[]'' = Inl (Error ''inference service unavailable'') \<and>
   json_keys all_failed_report =
     [''reportType'', ''staticAnalysis'', ''dynamicAnalysis'', ''genericFuzzing'', ''aiFuzzing''] \<and>
   json_get all_failed_report ''staticAnalysis'' = Some JNull \<and>
   json_get all_failed_report ''dynamicAnalysis'' =
     Some (JObj [(''isHoneypot'', JBool False), (''reason'', JStr ''Honeypot check failed.'')]) \<and>
   json_get all_failed_report ''genericFuzzing'' =
     Some (JObj [(''status'', JStr ''incompatible''), (''reason'', JStr ''Generic fuzzing failed.'')]) \<and>
   json_get all_failed_report ''aiFuzzing'' =
     Some (JObj [(''status'', JStr ''incompatible''),
                 (''reason'', JStr ''AI-driven fuzzing process failed to run.'')])"
proof -
  let ?req = "\<lparr>inputType = Some ''address'', input = Some ''0xabc''\<rparr>"
  have h1: "inputType ?req = Some ''address''" and h2: "input ?req = Some ''0xabc''"
    by simp_all
  note h3 = quiet_analyze
  from address_report_populated [OF h1 h2 h3]
  show ?thesis
    using h3 by (simp add: quiet_fetch quiet_abi quiet_static quiet_dynamic quiet_generic quiet_ai)
qed

lemma getDynamicAnalysis_generateContent [simp]:
  "getDynamicAnalysis (w\<lparr>generateContent := g\<rparr>) a = getDynamicAnalysis w a"
  by (simp add: getDynamicAnalysis_def split: sum.splits prod.splits)

lemma getGenericFuzzingAnalysis_generateContent [simp]:
  "getGenericFuzzingAnalysis (w\<lparr>generateContent := g\<rparr>) a = getGenericFuzzingAnalysis w a"
  by (simp add: getGenericFuzzingAnalysis_def fuzzingEnginePath_def)

lemma fetch_source_generateContent [simp]:
  "fetch_source (w\<lparr>generateContent := g\<rparr>) a = fetch_source w a"
  by (simp add: fetch_source_def)

lemma getContractAbi_generateContent [simp]:
  "getContractAbi (w\<lparr>generateContent := g\<rparr>) a = getContractAbi w a"
  by (simp add: getContractAbi_def)

text \<open>
  C9. Take an address request that is answered with a report, and run it again in a world
  that differs only in the inference service, hence in whether the static adapter fails
  (the explorer, the child processes, \<open>JSON.parse\<close> and the file system are the same):
  the second run is answered with a report too, and the \<open>dynamicAnalysis\<close> and
  \<open>genericFuzzing\<close> fields of the two reports are equal.
\<close>

theorem static_failure_isolated:
  assumes "inputType req = Some ''address''"
      and "analyze w req s = (Response 200 r, s1)"
  shows "\<exists>r' s2. analyze (w\<lparr>generateContent := g\<rparr>) req s = (Response 200 r', s2) \<and>
           json_get r' ''dynamicAnalysis'' = json_get r ''dynamicAnalysis'' \<and>
           json_get r' ''genericFuzzing'' = json_get r ''genericFuzzing''"
proof -
  from analyze_address_report [OF assms(2) assms(1)]
  obtain a where a: "input req = Some a" and r: "analyze_address w a = Inr r" by blast
  from r obtain sourceCode abi where
    src: "fetch_source w a = Inr sourceCode" and abi: "getContractAbi w a = Inr abi"
    by (auto simp: analyze_address_def split: sum.splits)
  let ?w = "w\<lparr>generateContent := g\<rparr>"
  obtain r' where r': "analyze_address ?w a = Inr r'"
    using src abi by (simp add: analyze_address_def Let_def)
  have "analyze ?w req s = (Response 200 r', s)"
    using r' a assms(1) analyze_nonempty_input [OF assms(2) a]
    by (simp add: analyze_def js_not_def route_def js_truthy_def)
  moreover have "json_get r' ''dynamicAnalysis'' = json_get r ''dynamicAnalysis''"
    and "json_get r' ''genericFuzzing'' = json_get r ''genericFuzzing''"
    using r r' src abi by (auto simp: analyze_address_def Let_def)
  ultimately show ?thesis by blast
qed

text \<open>
  The theorem in \<open>answering_world\<close>, where the static adapter succeeds, against the same
  world with an inference service that rejects every prompt, where it fails.
\<close>

theorem static_failure_isolated_witness:
  "inputType \<lparr>inputType = Some ''address'', input = Some ''0xabc''\<rparr> = Some ''address'' \<and>
   analyze answering_world \<lparr>inputType = Some ''address'', input = Some ''0xabc''\<rparr> idle =
     (Response 200 answering_report, idle) \<and>
   getStaticAnalysis answering_world ''contract C {}'' = Inr (JObj []) \<and>
   getStaticAnalysis (answering_world\<lparr>generateContent := (\<lambda>prompt. Inl (Error ''overloaded''))\<rparr>)
     ''contract C {}'' = Inl (Error ''overloaded'') \<and>
   (\<exists>r' s2. analyze (answering_world\<lparr>generateContent := (\<lambda>prompt. Inl (Error ''overloaded''))\<rparr>)
               \<lparr>inputType = Some ''address'', input = Some ''0xabc''\<rparr> idle = (Response 200 r', s2) \<and>
            json_get r' ''dynamicAnalysis'' = Some (JObj []) \<and>
            json_get r' ''genericFuzzing'' =
              Some (JObj [(''status'', JStr ''passed''),
                          (''reason'', JStr ''All generic invariants passed.'')]))"
proof -
  let ?req = "\<lparr>inputType = Some ''address'', input = Some ''0xabc''\<rparr>"
  have h1: "inputType ?req = Some ''address''" by simp
  note h2 = answering_analyze
  have s1: "getStaticAnalysis answering_world ''contract C {}'' = Inr (JObj [])"
    by (simp add: getStaticAnalysis_def answering_world_def quiet_world_def)
  have s2: "getStaticAnalysis
              (answering_world\<lparr>generateContent := (\<lambda>prompt. Inl (Error ''overloaded''))\<rparr>)
              ''contract C {}'' = Inl (Error ''overloaded'')"
    by (simp add: getStaticAnalysis_def)
  from static_failure_isolated [OF h1 h2, of "\<lambda>prompt. Inl (Error ''overloaded'')"]
  show ?thesis using h1 h2 s1 s2 by (simp add: answering_report_def)
qed

section \<open>The generic fuzzer adapter\<close>

text \<open>
  C6, as the code has it. When the harness exits with code zero the adapter returns
  \<open>{status: 'passed', reason: 'All generic invariants passed.'}\<close>. When it exits non-zero,
  the adapter inspects \<open>error.stdout || error.stderr\<close>, that is the captured standard
  output when it is not empty and the captured standard error otherwise: if that log
  contains \<open>Compiler error\<close> or \<open>compilation failed\<close> the adapter returns exactly
  \<open>{status: 'incompatible', reason: 'Generic test suite was not compatible with this
  contract.'}\<close>, and otherwise status \<open>failed\<close> with the log appended to the reason.
\<close>

theorem generic_fuzzer_classification:
  "(exec w (generic_fuzz_command a) (fuzzingEnginePath w) = Inr out \<longrightarrow>
      getGenericFuzzingAnalysis w a =
        Inr (JObj [(''status'', JStr ''passed''),
                   (''reason'', JStr ''All generic invariants passed.'')])) \<and>
   (exec w (generic_fuzz_command a) (fuzzingEnginePath w) = Inl (ExecError (Some so) (Some se)) \<and>
    errorLog = (if so \<noteq> [] then so else se) \<and>
    (js_includes errorLog ''Compiler error'' \<or> js_includes errorLog ''compilation failed'') \<longrightarrow>
      getGenericFuzzingAnalysis w a =
        Inr (JObj [(''status'', JStr ''incompatible''),
                   (''reason'', JStr ''Generic test suite was not compatible with this contract.'')])) \<and>
   (exec w (generic_fuzz_command a) (fuzzingEnginePath w) = Inl (ExecError (Some so) (Some se)) \<and>
    errorLog = (if so \<noteq> [] then so else se) \<and>
    \<not> (js_includes errorLog ''Compiler error'' \<or> js_includes errorLog ''compilation failed'') \<longrightarrow>
      getGenericFuzzingAnalysis w a =
        Inr (JObj [(''status'', JStr ''failed''),
                   (''reason'', JStr (''Generic invariant violated. Details: '' @ errorLog))]))"
  by (auto simp: getGenericFuzzingAnalysis_def fuzz_outcome_def js_or_def js_truthy_def
        is_compiler_error_def)

text \<open>
  C6 as stated speaks of the combined output. A harness that exits non-zero having
  written \<open>Compiling 24 files\<close> to its standard output and \<open>Error: Compiler error\<close> to its
  standard error has the marker in its combined output, and is classified \<open>failed\<close>:
  the standard error is not looked at when the standard output is not empty.
\<close>

theorem generic_fuzzer_combined_output_counterexample:
  "js_includes (''Compiling 24 files'' @ ''Error: Compiler error'') ''Compiler error'' \<and>
   getGenericFuzzingAnalysis
     (quiet_world\<lparr>exec := (\<lambda>command cwd.
        Inl (ExecError (Some ''Compiling 24 files'') (Some ''Error: Compiler error'')))\<rparr>) ''0xabc'' =
     Inr (JObj [(''status'', JStr ''failed''),
                (''reason'', JStr ''Generic invariant violated. Details: Compiling 24 files'')])"
  by (simp add: getGenericFuzzingAnalysis_def fuzz_outcome_def js_or_def js_truthy_def
        is_compiler_error_def)

text \<open>The three cases of the classification, each in a world that produces it.\<close>

theorem generic_fuzzer_classification_witness:
  "exec answering_world (generic_fuzz_command ''0xabc'') (fuzzingEnginePath answering_world)
     = Inr (''{}'', []) \<and>
   getGenericFuzzingAnalysis answering_world ''0xabc'' =
     Inr (JObj [(''status'', JStr ''passed''), (''reason'', JStr ''All generic invariants passed.'')]) \<and>
   getGenericFuzzingAnalysis
     (quiet_world\<lparr>exec := (\<lambda>command cwd. Inl (ExecError (Some []) (Some ''Error: Compiler error'')))\<rparr>)
     ''0xabc'' =
     Inr (JObj [(''status'', JStr ''incompatible''),
                (''reason'', JStr ''Generic test suite was not compatible with this contract.'')]) \<and>
   getGenericFuzzingAnalysis
     (quiet_world\<lparr>exec := (\<lambda>command cwd. Inl (ExecError (Some ''[FAIL] invariant_supply'') (Some [])))\<rparr>)
     ''0xabc'' =
     Inr (JObj [(''status'', JStr ''failed''),
                (''reason'', JStr ''Generic invariant violated. Details: [FAIL] invariant_supply'')])"
proof -
  let ?w2 = "quiet_world\<lparr>exec := (\<lambda>command cwd. Inl (ExecError (Some []) (Some ''Error: Compiler error'')))\<rparr>"
  let ?w3 = "quiet_world\<lparr>exec := (\<lambda>command cwd. Inl (ExecError (Some ''[FAIL] invariant_supply'') (Some [])))\<rparr>"
  have h1: "exec answering_world (generic_fuzz_command ''0xabc'') (fuzzingEnginePath answering_world)
     = Inr (''{}'', [])"
    by (simp add: answering_world_def)
  have h2: "exec ?w2 (generic_fuzz_command ''0xabc'') (fuzzingEnginePath ?w2)
              = Inl (ExecError (Some []) (Some ''Error: Compiler error'')) \<and>
            ''Error: Compiler error'' = (if [] \<noteq> ([]::string) then [] else ''Error: Compiler error'') \<and>
            (js_includes ''Error: Compiler error'' ''Compiler error'' \<or>
             js_includes ''Error: Compiler error'' ''compilation failed'')"
    by simp
  have h3: "exec ?w3 (generic_fuzz_command ''0xabc'') (fuzzingEnginePath ?w3)
              = Inl (ExecError (Some ''[FAIL] invariant_supply'') (Some [])) \<and>
            ''[FAIL] invariant_supply'' =
               (if ''[FAIL] invariant_supply'' \<noteq> [] then ''[FAIL] invariant_supply'' else []) \<and>
            \<not> (js_includes ''[FAIL] invariant_supply'' ''Compiler error'' \<or>
               js_includes ''[FAIL] invariant_supply'' ''compilation failed'')"
    by simp
  from generic_fuzzer_classification [of answering_world "''0xabc''" "(''{}'', [])"] h1
  have c1: "getGenericFuzzingAnalysis answering_world ''0xabc'' =
     Inr (JObj [(''status'', JStr ''passed''), (''reason'', JStr ''All generic invariants passed.'')])"
    by blast
  from generic_fuzzer_classification [of ?w2 "''0xabc''" _ "[]" "''Error: Compiler error''" "''Error: Compiler error''"] h2
  have c2: "getGenericFuzzingAnalysis ?w2 ''0xabc'' =
     Inr (JObj [(''status'', JStr ''incompatible''),
                (''reason'', JStr ''Generic test suite was not compatible with this contract.'')])"
    by blast
  from generic_fuzzer_classification [of ?w3 "''0xabc''" _ "''[FAIL] invariant_supply''" "[]" "''[FAIL] invariant_supply''"] h3
  have c3: "getGenericFuzzingAnalysis ?w3 ''0xabc'' =
     Inr (JObj [(''status'', JStr ''failed''),
                (''reason'', JStr (''Generic invariant violated. Details: '' @ ''[FAIL] invariant_supply''))])"
    by blast
  from h1 c1 c2 c3 show ?thesis by simp
qed

section \<open>Test generation\<close>

lemma split_at_first_first:
  assumes "pat \<noteq> []" and "\<not> js_includes (b @ butlast pat) pat"
  shows "split_at_first pat (b @ pat @ a) = Some (b, a)"
  using assms(2)
proof (induction b)
  case Nil
  from assms(1) obtain c cs where "pat = c # cs" by (cases pat) auto
  then show ?case by simp
next
  case (Cons x b)
  from Cons.prems have no: "\<not> prefix pat (x # b @ butlast pat)"
    and rest: "\<not> js_includes (b @ butlast pat) pat" by simp_all
  have "\<not> prefix pat (x # b @ pat @ a)"
  proof
    assume p: "prefix pat (x # b @ pat @ a)"
    have "x # b @ pat @ a = (x # b @ butlast pat) @ (last pat # a)"
      using assms(1) by simp
    with p have "prefix pat ((x # b @ butlast pat) @ (last pat # a))" by simp
    moreover have "length pat \<le> length (x # b @ butlast pat)" by simp
    ultimately have "prefix pat (x # b @ butlast pat)"
      by (metis prefix_length_prefix prefixI)
    with no show False by contradiction
  qed
  with Cons.IH [OF rest] show ?case by simp
qed

lemma split_at_first_includes:
  "split_at_first pat s = Some (b, a) \<Longrightarrow> js_includes s pat"
  by (induction s arbitrary: b) (auto split: if_splits)

lemma js_includes_shorter:
  "js_includes s (p @ q) \<Longrightarrow> js_includes s p"
  by (induction s) (auto dest: append_prefixD)

lemma match_solidity_block_first:
  assumes "\<not> js_includes (pre @ ''```solidit'') ''```solidity''"
      and "\<not> js_includes (inner @ ''``'') ''```''"
  shows "match_solidity_block (pre @ ''```solidity'' @ inner @ ''```'' @ post) = Some inner"
proof -
  have "split_at_first ''```solidity'' (pre @ ''```solidity'' @ (inner @ ''```'' @ post))
          = Some (pre, inner @ ''```'' @ post)"
    by (rule split_at_first_first) (use assms(1) in simp_all)
  moreover have "split_at_first ''```'' (inner @ ''```'' @ post) = Some (inner, post)"
    by (rule split_at_first_first) (use assms(2) in simp_all)
  ultimately show ?thesis
    by (simp add: match_solidity_block_def)
qed

lemma match_solidity_block_None:
  assumes "\<not> js_includes responseText ''```solidity''"
  shows "match_solidity_block responseText = None"
proof (cases "split_at_first ''```solidity'' responseText")
  case None
  then show ?thesis by (simp add: match_solidity_block_def)
next
  case (Some ba)
  then obtain b a where "split_at_first ''```solidity'' responseText = Some (b, a)"
    by (cases ba) auto
  with assms show ?thesis by (auto dest: split_at_first_includes)
qed

lemma no_fence_no_tag:
  assumes "\<not> js_includes responseText ''```''"
  shows "\<not> js_includes responseText ''```solidity''"
  using assms js_includes_shorter [of responseText "''```''" "''solidity''"] by auto

lemma generateFuzzTest_response:
  assumes "generateContent w (fuzz_prompt @ ''\<newline>\<newline>Here is the ABI:\<newline>'' @ abi) = Inr responseText"
  shows "generateFuzzTest w abi = extract_test_code responseText"
  using assms by (simp add: generateFuzzTest_def)

lemma extract_test_code_Some:
  assumes "match_solidity_block responseText = Some group1" and "group1 \<noteq> []"
  shows "extract_test_code responseText = Inr (trim group1)"
  using assms by (simp add: extract_test_code_def js_truthy_def)

lemma extract_test_code_None:
  assumes "match_solidity_block responseText = None"
  shows "extract_test_code responseText =
           Inl (Error (''AI failed to generate a valid Solidity code block. Response was: ''
                       @ responseText))"
  using assms by (simp add: extract_test_code_def)

lemma ai_fuzzing_try_no_test:
  assumes "generateFuzzTest w abi = Inl e"
  shows "ai_fuzzing_try w a abi = Inl e"
  using assms by (simp add: ai_fuzzing_try_def)

text \<open>
  C4, as the code has it. When the response is \<open>pre ```solidity inner ``` post\<close>, this
  \<open>```solidity\<close> being the first in the response and this \<open>```\<close> the first after it, and
  \<open>inner\<close> is not empty, the stage returns \<open>inner\<close> trimmed. When the response has no
  \<open>```solidity\<close> marker, and so in particular when it has no fence at all, the stage
  throws and the \<open>try\<close> block of the pipeline ends with that error.
\<close>

theorem extract_tagged_block:
  assumes "generateContent w (fuzz_prompt @ ''\<newline>\<newline>Here is the ABI:\<newline>'' @ abi) = Inr responseText"
  shows "(responseText = pre @ ''```solidity'' @ inner @ ''```'' @ post \<and>
          \<not> js_includes (pre @ ''```solidit'') ''```solidity'' \<and>
          \<not> js_includes (inner @ ''``'') ''```'' \<and> inner \<noteq> [] \<longrightarrow>
            generateFuzzTest w abi = Inr (trim inner)) \<and>
         (\<not> js_includes responseText ''```solidity'' \<longrightarrow>
            generateFuzzTest w abi =
              Inl (Error (''AI failed to generate a valid Solidity code block. Response was: ''
                          @ responseText)) \<and>
            ai_fuzzing_try w a abi =
              Inl (Error (''AI failed to generate a valid Solidity code block. Response was: ''
                          @ responseText))) \<and>
         (\<not> js_includes responseText ''```'' \<longrightarrow>
            generateFuzzTest w abi =
              Inl (Error (''AI failed to generate a valid Solidity code block. Response was: ''
                          @ responseText)))"
proof (intro conjI impI)
  note g = generateFuzzTest_response [OF assms]
  {
    assume h: "responseText = pre @ ''```solidity'' @ inner @ ''```'' @ post \<and>
          \<not> js_includes (pre @ ''```solidit'') ''```solidity'' \<and>
          \<not> js_includes (inner @ ''``'') ''```'' \<and> inner \<noteq> []"
    then have "match_solidity_block responseText = Some inner"
      using match_solidity_block_first [of pre inner post] by blast
    with h show "generateFuzzTest w abi = Inr (trim inner)"
      unfolding g by (blast intro: extract_test_code_Some)
  }
  {
    assume "\<not> js_includes responseText ''```solidity''"
    then have "match_solidity_block responseText = None"
      by (rule match_solidity_block_None)
    then show f: "generateFuzzTest w abi =
              Inl (Error (''AI failed to generate a valid Solidity code block. Response was: ''
                          @ responseText))"
      unfolding g by (rule extract_test_code_None)
    then show "ai_fuzzing_try w a abi =
              Inl (Error (''AI failed to generate a valid Solidity code block. Response was: ''
                          @ responseText))"
      by (rule ai_fuzzing_try_no_test)
  }
  {
    assume "\<not> js_includes responseText ''```''"
    then have "\<not> js_includes responseText ''```solidity''"
      by (rule no_fence_no_tag)
    then have "match_solidity_block responseText = None"
      by (rule match_solidity_block_None)
    then show "generateFuzzTest w abi =
              Inl (Error (''AI failed to generate a valid Solidity code block. Response was: ''
                          @ responseText))"
      unfolding g by (rule extract_test_code_None)
  }
qed

text \<open>
  C4 as stated speaks of any fenced code block. The response \<open>``` contract T {} ```\<close> is
  exactly one fenced block and nothing else, its inner text has no backquote and trims to
  \<open>contract T {}\<close>; the fence carries no \<open>solidity\<close> tag, the regular expression does
  not match, and the stage throws instead of returning the trimmed text.
\<close>

theorem untagged_block_counterexample:
  "\<not> js_includes '' contract T {} '' ''`'' \<and>
   trim '' contract T {} '' = ''contract T {}'' \<and>
   generateFuzzTest
     (quiet_world\<lparr>generateContent := (\<lambda>prompt. Inr (''```'' @ '' contract T {} '' @ ''```''))\<rparr>) ''[]'' =
     Inl (Error ''AI failed to generate a valid Solidity code block. Response was: ``` contract T {} ```'')"
  by (simp add: generateFuzzTest_def extract_test_code_def match_solidity_block_def trim_def
        is_js_space_def)

text \<open>
  The theorem on a response with one tagged block between two sentences, and on a
  response without any fence.
\<close>

theorem extract_tagged_block_witness:
  "generateContent
     (quiet_world\<lparr>generateContent := (\<lambda>prompt. Inr ''Here: ```solidity contract T {} ``` done'')\<rparr>)
     (fuzz_prompt @ ''\<newline>\<newline>Here is the ABI:\<newline>'' @ ''[]'')
     = Inr (''Here: '' @ ''```solidity'' @ '' contract T {} '' @ ''```'' @ '' done'') \<and>
   \<not> js_includes (''Here: '' @ ''```solidit'') ''```solidity'' \<and>
   \<not> js_includes ('' contract T {} '' @ ''``'') ''```'' \<and>
   generateFuzzTest
     (quiet_world\<lparr>generateContent := (\<lambda>prompt. Inr ''Here: ```solidity contract T {} ``` done'')\<rparr>) ''[]''
     = Inr ''contract T {}'' \<and>
   generateContent
     (quiet_world\<lparr>generateContent := (\<lambda>prompt. Inr ''No code, sorry.'')\<rparr>)
     (fuzz_prompt @ ''\<newline>\<newline>Here is the ABI:\<newline>'' @ ''[]'') = Inr ''No code, sorry.'' \<and>
   \<not> js_includes ''No code, sorry.'' ''```'' \<and>
   \<not> js_includes ''No code, sorry.'' ''```solidity'' \<and>
   ai_fuzzing_try
     (quiet_world\<lparr>generateContent := (\<lambda>prompt. Inr ''No code, sorry.'')\<rparr>) ''0xabc'' ''[]'' =
     Inl (Error ''AI failed to generate a valid Solidity code block. Response was: No code, sorry.'')"
proof -
  let ?w1 = "quiet_world\<lparr>generateContent := (\<lambda>prompt. Inr ''Here: ```solidity contract T {} ``` done'')\<rparr>"
  let ?w2 = "quiet_world\<lparr>generateContent := (\<lambda>prompt. Inr ''No code, sorry.'')\<rparr>"
  have g1: "generateContent ?w1 (fuzz_prompt @ ''\<newline>\<newline>Here is the ABI:\<newline>'' @ ''[]'')
     = Inr (''Here: '' @ ''```solidity'' @ '' contract T {} '' @ ''```'' @ '' done'')"
    by simp
  have g2: "generateContent ?w2 (fuzz_prompt @ ''\<newline>\<newline>Here is the ABI:\<newline>'' @ ''[]'')
     = Inr ''No code, sorry.''"
    by simp
  have n1: "\<not> js_includes (''Here: '' @ ''```solidit'') ''```solidity''"
    and n2: "\<not> js_includes ('' contract T {} '' @ ''``'') ''```''"
    and n3: "\<not> js_includes ''No code, sorry.'' ''```''"
    and n4: "\<not> js_includes ''No code, sorry.'' ''```solidity''"
    by simp_all
  have t: "trim '' contract T {} '' = ''contract T {}''"
    by (simp add: trim_def is_js_space_def)
  from extract_tagged_block [OF g1, of "''Here: ''" "'' contract T {} ''" "'' done''"] n1 n2
  have c1: "generateFuzzTest ?w1 ''[]'' = Inr (trim '' contract T {} '')"
    by blast
  from extract_tagged_block [OF g2, of _ _ _ "''0xabc''"] n4
  have c2: "ai_fuzzing_try ?w2 ''0xabc'' ''[]'' =
     Inl (Error (''AI failed to generate a valid Solidity code block. Response was: '' @ ''No code, sorry.''))"
    by blast
  from g1 g2 n1 n2 n3 n4 c1 c2 t show ?thesis by simp
qed


section \<open>The repository scanner\<close>

declare batch_loop.simps [simp del]
declare schedule.simps [simp del]
declare completion_sequence.simps [simp del]

lemma analyze_file_settles: "fst (analyze_file w tempDir filePath) = Inr (finding_of w tempDir filePath)"
  by (simp add: analyze_file_def finding_of_def split: sum.splits)

lemma promise_all_Inr: "promise_all (map Inr vs) = Inr vs"
  by (induction vs) simp_all

lemma promise_all_batch:
  "promise_all (map fst (map (analyze_file w tempDir) batch)) = Inr (map (finding_of w tempDir) batch)"
proof -
  have "map fst (map (analyze_file w tempDir) batch) = map Inr (map (finding_of w tempDir) batch)"
    by (simp add: analyze_file_settles)
  then show ?thesis by (simp only: promise_all_Inr)
qed

lemma map_filter_id_map: "List.map_filter id (map f xs) = List.map_filter f xs"
  by (induction xs) (simp_all add: List.map_filter_simps split: option.splits)

lemma map_filter_append: "List.map_filter f (xs @ ys) = List.map_filter f xs @ List.map_filter f ys"
  by (simp add: List.map_filter_def)

lemma schedule_Nil [simp]: "schedule [] = []"
  by (simp add: schedule.simps)

lemma schedule_step:
  "files \<noteq> [] \<Longrightarrow>
   schedule files = BatchRun (take BATCH_SIZE files) #
     (if BATCH_SIZE < length files then Pause DELAY_MS # schedule (drop BATCH_SIZE files) else [])"
  by (subst schedule.simps) simp

lemma completion_sequence_Nil [simp]: "completion_sequence w [] = []"
  by (simp add: completion_sequence.simps)

lemma completion_sequence_step:
  "files \<noteq> [] \<Longrightarrow>
   completion_sequence w files =
     completion_order w (take BATCH_SIZE files) @ completion_sequence w (drop BATCH_SIZE files)"
  by (subst completion_sequence.simps) simp

lemma batch_loop_closed_form:
  "batch_loop w tempDir files i findings s =
     (Inr (findings @ List.map_filter (finding_of w tempDir) (completion_sequence w (drop i files))),
      s\<lparr>console := console s @ concat (map (\<lambda>p. snd (analyze_file w tempDir p))
                                           (completion_sequence w (drop i files))),
        timeline := timeline s @ schedule (drop i files)\<rparr>)"
proof (induction w tempDir files i findings s rule: batch_loop.induct)
  case (1 w tempDir files i findings s)
  show ?case
  proof (cases "i < length files")
    case False
    then show ?thesis by (subst batch_loop.simps) simp
  next
    case True
    let ?rest = "drop i files"
    let ?batch = "take BATCH_SIZE ?rest"
    let ?ended = "completion_order w ?batch"
    let ?tasks = "map (analyze_file w tempDir) ?ended"
    let ?s1 = "s\<lparr>console := console s @ concat (map snd ?tasks),
                  timeline := timeline s @ [BatchRun ?batch]\<rparr>"
    let ?s2 = "if i + BATCH_SIZE < length files
               then ?s1\<lparr>timeline := timeline ?s1 @ [Pause DELAY_MS]\<rparr> else ?s1"
    let ?pushed = "map (finding_of w tempDir) ?ended"
    have pa: "promise_all (map fst ?tasks) = Inr ?pushed"
      by (rule promise_all_batch)
    have step: "batch_loop w tempDir files i findings s =
                  batch_loop w tempDir files (i + BATCH_SIZE)
                    (findings @ List.map_filter id ?pushed) ?s2"
      by (subst batch_loop.simps) (simp only: True if_True Let_def pa sum.case)
    let ?rest' = "drop (i + BATCH_SIZE) files"
    have IH: "batch_loop w tempDir files (i + BATCH_SIZE) (findings @ List.map_filter id ?pushed) ?s2 =
          (Inr ((findings @ List.map_filter id ?pushed)
                 @ List.map_filter (finding_of w tempDir) (completion_sequence w ?rest')),
           ?s2\<lparr>console := console ?s2
                    @ concat (map (\<lambda>p. snd (analyze_file w tempDir p)) (completion_sequence w ?rest')),
                 timeline := timeline ?s2 @ schedule ?rest'\<rparr>)"
      by (rule "1.IH" [OF True refl refl refl pa refl])
    have d: "drop BATCH_SIZE ?rest = ?rest'"
      by (simp add: add.commute)
    have ne: "?rest \<noteq> []" using True by simp
    have lt: "BATCH_SIZE < length ?rest \<longleftrightarrow> i + BATCH_SIZE < length files"
      by auto
    have cs: "completion_sequence w ?rest = ?ended @ completion_sequence w ?rest'"
      using completion_sequence_step [OF ne] unfolding d .
    have f: "List.map_filter (finding_of w tempDir) (completion_sequence w ?rest) =
             List.map_filter id ?pushed
               @ List.map_filter (finding_of w tempDir) (completion_sequence w ?rest')"
      unfolding cs by (simp only: map_filter_append map_filter_id_map)
    have c: "concat (map (\<lambda>p. snd (analyze_file w tempDir p)) (completion_sequence w ?rest)) =
             concat (map snd ?tasks)
               @ concat (map (\<lambda>p. snd (analyze_file w tempDir p)) (completion_sequence w ?rest'))"
      unfolding cs by (simp add: comp_def)
    have sched: "schedule ?rest = BatchRun ?batch #
                   (if i + BATCH_SIZE < length files then Pause DELAY_MS # schedule ?rest' else [])"
      using schedule_step [OF ne] unfolding d lt .
    note step also note IH
    finally have e: "batch_loop w tempDir files i findings s =
          (Inr ((findings @ List.map_filter id ?pushed)
                 @ List.map_filter (finding_of w tempDir) (completion_sequence w ?rest')),
           ?s2\<lparr>console := console ?s2
                    @ concat (map (\<lambda>p. snd (analyze_file w tempDir p)) (completion_sequence w ?rest')),
                 timeline := timeline ?s2 @ schedule ?rest'\<rparr>)" .
    show ?thesis
      unfolding e f c sched by simp
  qed
qed











lemma mset_completion_order [simp]: "mset (completion_order w batch) = mset batch"
  by (simp add: completion_order_def)

lemma length_completion_order [simp]: "length (completion_order w batch) = length batch"
  by (simp add: completion_order_def)

lemma mset_completion_sequence: "mset (completion_sequence w files) = mset files"
proof (induction w files rule: completion_sequence.induct)
  case (1 w files)
  show ?case
  proof (cases "files = []")
    case True
    then show ?thesis by simp
  next
    case False
    have "mset (completion_sequence w files) =
            mset (take BATCH_SIZE files) + mset (drop BATCH_SIZE files)"
      unfolding completion_sequence_step [OF False] using "1.IH" [OF False] by simp
    also have "\<dots> = mset (take BATCH_SIZE files @ drop BATCH_SIZE files)"
      by (simp only: mset_append)
    also have "\<dots> = mset files"
      by (simp only: append_take_drop_id)
    finally show ?thesis .
  qed
qed

lemma completion_sequence_batchwise:
  "mset (take BATCH_SIZE (drop (k * BATCH_SIZE) (completion_sequence w files))) =
     mset (take BATCH_SIZE (drop (k * BATCH_SIZE) files))"
proof (induction w files arbitrary: k rule: completion_sequence.induct)
  case (1 w files)
  show ?case
  proof (cases "files = []")
    case True
    then show ?thesis by simp
  next
    case False
    note step = completion_sequence_step [OF False, of w]
    show ?thesis
    proof (cases "BATCH_SIZE \<le> length files")
      case full: True
      then have len: "length (completion_order w (take BATCH_SIZE files)) = BATCH_SIZE"
        by simp
      show ?thesis
      proof (cases k)
        case 0
        then show ?thesis unfolding step using len by simp
      next
        case (Suc j)
        have "drop (k * BATCH_SIZE) (completion_sequence w files) =
                drop (j * BATCH_SIZE) (completion_sequence w (drop BATCH_SIZE files))"
          unfolding step Suc using len by simp
        moreover have "drop (k * BATCH_SIZE) files = drop (j * BATCH_SIZE) (drop BATCH_SIZE files)"
          unfolding Suc by (simp add: add.commute)
        ultimately show ?thesis using "1.IH" [OF False, of j] by simp
      qed
    next
      case short: False
      then have d: "drop BATCH_SIZE files = []" by simp
      have e: "completion_sequence w files = completion_order w files"
        unfolding step d using short by simp
      show ?thesis
      proof (cases k)
        case 0
        then show ?thesis unfolding e using short by simp
      next
        case (Suc j)
        then have "length files \<le> k * BATCH_SIZE" using short by simp
        then show ?thesis unfolding e by simp
      qed
    qed
  qed
qed

lemma mset_map_filter:
  assumes "mset xs = mset ys"
  shows "mset (List.map_filter f xs) = mset (List.map_filter f ys)"
proof -
  have "mset (List.map_filter f zs) = image_mset (the \<circ> f) (filter_mset (\<lambda>x. f x \<noteq> None) (mset zs))"
    for zs
    by (simp add: List.map_filter_def)
  with assms show ?thesis by simp
qed

lemma scan_after_clone:
  assumes "fs_remove w (workspace s) = None" and "fs_ensureDir w None = None"
      and "git_clone w url = Inr tree"
  shows "analyzeGitHubRepo w url s =
    (let tempDir = path_join (dirname w) ''temp_repo'';
         files = fst (findSolidityFiles tempDir tree);
         ended = completion_sequence w files;
         s4 = s\<lparr>workspace := Some tree,
                console := console s @ snd (findSolidityFiles tempDir tree)
                             @ concat (map (\<lambda>p. snd (analyze_file w tempDir p)) ended),
                timeline := timeline s @ schedule files\<rparr>
     in case fs_remove w (Some tree) of
          Some e \<Rightarrow> (Inl e, s4)
        | None \<Rightarrow> (Inr (List.map_filter (finding_of w tempDir) ended), s4\<lparr>workspace := None\<rparr>))"
  using assms
  by (simp add: analyzeGitHubRepo_def batch_loop_closed_form Let_def
           split: prod.splits option.splits)

lemma scan_returns:
  assumes "analyzeGitHubRepo w url s = (Inr findings, s')"
  shows "\<exists>tree. fs_remove w (workspace s) = None \<and> fs_ensureDir w None = None \<and>
           git_clone w url = Inr tree \<and> fs_remove w (Some tree) = None"
  using assms
  by (auto simp: analyzeGitHubRepo_def batch_loop_closed_form Let_def
           split: prod.splits option.splits sum.splits)

lemma scan_success:
  assumes "fs_remove w (workspace s) = None" and "fs_ensureDir w None = None"
      and "git_clone w url = Inr tree" and "fs_remove w (Some tree) = None"
  shows "analyzeGitHubRepo w url s =
    (Inr (List.map_filter (finding_of w (path_join (dirname w) ''temp_repo''))
            (completion_sequence w
               (fst (findSolidityFiles (path_join (dirname w) ''temp_repo'') tree)))),
     s\<lparr>workspace := None,
       console := console s @ snd (findSolidityFiles (path_join (dirname w) ''temp_repo'') tree)
                    @ concat (map (\<lambda>p. snd (analyze_file w (path_join (dirname w) ''temp_repo'') p))
                               (completion_sequence w
                                  (fst (findSolidityFiles (path_join (dirname w) ''temp_repo'') tree)))),
       timeline := timeline s
                    @ schedule (fst (findSolidityFiles (path_join (dirname w) ''temp_repo'') tree))\<rparr>)"
  using scan_after_clone [OF assms(1-3)] assms(4) by (simp add: Let_def)

lemma scan_throws:
  assumes "analyzeGitHubRepo w url s = (Inl thrown, s1)"
  shows "fs_remove w (workspace s) = Some thrown \<or> fs_ensureDir w None = Some thrown \<or>
         git_clone w url = Inl thrown \<or>
         (\<exists>tree'. git_clone w url = Inr tree' \<and> fs_remove w (Some tree') = Some thrown)"
  using assms
  by (auto simp: analyzeGitHubRepo_def batch_loop_closed_form Let_def
           split: prod.splits option.splits sum.splits)

lemma walk_unreadable_as_empty:
  "fst (findSolidityFiles startPath node) =
     fst (findSolidityFiles startPath (unreadable_as_empty node))"
  "\<forall>out'. fst (walk_entries startPath files result out) =
     fst (walk_entries startPath (map (\<lambda>(file, node). (file, unreadable_as_empty node)) files)
            result out')"
proof (induction startPath node and startPath files result out
       rule: findSolidityFiles_walk_entries.induct)
  case (8 startPath name v rest result out)
  let ?x = "path_join startPath name"
  obtain sub o1 where l: "findSolidityFiles ?x (Dir v) = (sub, o1)"
    by (cases "findSolidityFiles ?x (Dir v)")
  obtain sub' o2 where r: "findSolidityFiles ?x (unreadable_as_empty (Dir v)) = (sub', o2)"
    by (cases "findSolidityFiles ?x (unreadable_as_empty (Dir v))")
  from "8.IH"(1) [OF refl] l r have same: "sub' = sub" by simp
  from "8.IH"(2) [OF refl l [symmetric]]
  have "\<forall>out'. fst (walk_entries startPath rest (result @ sub) (out @ o1)) =
          fst (walk_entries startPath
                 (map (\<lambda>(file, node). (file, unreadable_as_empty node)) rest) (result @ sub) out')" .
  with l r same show ?case by (simp add: Let_def)
next
  case (9 startPath name rest result out)
  from "9.IH"(2) [OF refl, of "[]" "[''Could not read directory '' @ path_join startPath name @ '': '']"]
  show ?case by (simp add: Let_def)
qed (simp_all add: Let_def)

lemma sample_files:
  "findSolidityFiles ''/srv/server/temp_repo'' sample_tree =
     ([''/srv/server/temp_repo/contracts/Vault.sol'', ''/srv/server/temp_repo/contracts/Broken.sol'',
       ''/srv/server/temp_repo/contracts/Tiny.sol'', ''/srv/server/temp_repo/Token.sol'',
       ''/srv/server/temp_repo/Pool.sol''],
      [''Could not read directory /srv/server/temp_repo/private: ''])"
  by (simp add: sample_tree_def path_join_def endsWith_def Let_def suffix_to_prefix)

lemma sample_try:
  "analyze_file_try repo_world ''/srv/server/temp_repo'' ''/srv/server/temp_repo/contracts/Vault.sol''
     = Inr (Some (JObj [(''file'', JStr ''contracts/Vault.sol''), (''analysis'', JObj [])]))"
  "analyze_file_try repo_world ''/srv/server/temp_repo'' ''/srv/server/temp_repo/contracts/Broken.sol''
     = Inl (Error ''EACCES'')"
  "analyze_file_try repo_world ''/srv/server/temp_repo'' ''/srv/server/temp_repo/contracts/Tiny.sol''
     = Inr None"
  "analyze_file_try repo_world ''/srv/server/temp_repo'' ''/srv/server/temp_repo/Token.sol''
     = Inl (Error ''quota exceeded'')"
  by (simp_all add: analyze_file_try_def repo_world_def getStaticAnalysis_def vault_source_def
        token_source_def trim_def is_js_space_def path_relative_def)

lemma finding_of_failed:
  assumes "analyze_file_try w tempDir p = Inl e"
  shows "finding_of w tempDir p = None"
    and "snd (analyze_file w tempDir p) = [''Skipping analysis for '' @ path_relative tempDir p @ ''.'']"
  using assms by (simp_all add: finding_of_def analyze_file_def)

lemma finding_of_done:
  assumes "analyze_file_try w tempDir p = Inr r"
  shows "finding_of w tempDir p = r" and "snd (analyze_file w tempDir p) = []"
  using assms by (simp_all add: finding_of_def analyze_file_def)








text \<open>
  C8. An error thrown by a scan is one thrown by the removal at its start, by the creation
  of the workspace, by the clone or by the removal at its end: none comes from a file or
  a directory. A scan for which these four calls succeed returns the findings, whatever
  happens to single files and directories. The findings are those of all the files found,
  each file contributing on its own (\<open>finding_of\<close>), in the order in which the callbacks
  end: that order is the file list with each batch permuted, so that as a multiset the
  findings are those of the file list; the console holds the lines of the walk followed
  by the lines of the files in the same order. A file whose read fails, or whose analysis
  fails, contributes no finding and one line \<open>Skipping analysis for ...\<close>; a file that
  is read and analysed contributes its entry. A directory that cannot be read yields no
  path and one line \<open>Could not read directory ...\<close>, and the walk of any tree finds the
  same paths as the walk of the tree in which every unreadable directory is an empty
  directory.
\<close>

theorem scan_survives_failures:
  "(analyzeGitHubRepo w url s = (Inl thrown, s1) \<longrightarrow>
      fs_remove w (workspace s) = Some thrown \<or> fs_ensureDir w None = Some thrown \<or>
      git_clone w url = Inl thrown \<or>
      (\<exists>tree'. git_clone w url = Inr tree' \<and> fs_remove w (Some tree') = Some thrown)) \<and>
   (fs_remove w (workspace s) = None \<and> fs_ensureDir w None = None \<and>
    git_clone w url = Inr tree \<and> fs_remove w (Some tree) = None \<and>
    tempDir = path_join (dirname w) ''temp_repo'' \<and>
    files = fst (findSolidityFiles tempDir tree) \<longrightarrow>
      (\<exists>ended findings s'.
            analyzeGitHubRepo w url s = (Inr findings, s') \<and>
            ended = completion_sequence w files \<and>
            (\<forall>k. mset (take BATCH_SIZE (drop (k * BATCH_SIZE) ended)) =
                  mset (take BATCH_SIZE (drop (k * BATCH_SIZE) files))) \<and>
            mset ended = mset files \<and>
            findings = List.map_filter (finding_of w tempDir) ended \<and>
            mset findings = mset (List.map_filter (finding_of w tempDir) files) \<and>
            console s' = console s @ snd (findSolidityFiles tempDir tree)
                           @ concat (map (\<lambda>p. snd (analyze_file w tempDir p)) ended))) \<and>
   (fs_readFile w p = Inl e \<longrightarrow>
      finding_of w dir p = None \<and>
      snd (analyze_file w dir p) = [''Skipping analysis for '' @ path_relative dir p @ ''.'']) \<and>
   (fs_readFile w p = Inr content \<and> 50 \<le> length (trim content) \<and>
    getStaticAnalysis w content = Inl e \<longrightarrow>
      finding_of w dir p = None \<and>
      snd (analyze_file w dir p) = [''Skipping analysis for '' @ path_relative dir p @ ''.'']) \<and>
   (fs_readFile w p = Inr content \<and> 50 \<le> length (trim content) \<and>
    getStaticAnalysis w content = Inr a \<longrightarrow>
      finding_of w dir p =
        Some (JObj [(''file'', JStr (path_relative dir p)), (''analysis'', a)]) \<and>
      snd (analyze_file w dir p) = []) \<and>
   findSolidityFiles dir NoReadDir = ([], [''Could not read directory '' @ dir @ '': '']) \<and>
   fst (findSolidityFiles dir node) = fst (findSolidityFiles dir (unreadable_as_empty node))"
proof (intro conjI impI)
  assume "analyzeGitHubRepo w url s = (Inl thrown, s1)"
  then show "fs_remove w (workspace s) = Some thrown \<or> fs_ensureDir w None = Some thrown \<or>
      git_clone w url = Inl thrown \<or>
      (\<exists>tree'. git_clone w url = Inr tree' \<and> fs_remove w (Some tree') = Some thrown)"
    by (rule scan_throws)
next
  assume h: "fs_remove w (workspace s) = None \<and> fs_ensureDir w None = None \<and>
    git_clone w url = Inr tree \<and> fs_remove w (Some tree) = None \<and>
    tempDir = path_join (dirname w) ''temp_repo'' \<and>
    files = fst (findSolidityFiles tempDir tree)"
  then have prep: "fs_remove w (workspace s) = None" "fs_ensureDir w None = None"
    "git_clone w url = Inr tree" "fs_remove w (Some tree) = None"
    and names: "tempDir = path_join (dirname w) ''temp_repo''"
      "files = fst (findSolidityFiles tempDir tree)"
    by simp_all
  let ?ended = "completion_sequence w files"
  have m: "mset ?ended = mset files" by (rule mset_completion_sequence)
  have "analyzeGitHubRepo w url s =
          (Inr (List.map_filter (finding_of w tempDir) ?ended),
           snd (analyzeGitHubRepo w url s))"
    and "console (snd (analyzeGitHubRepo w url s)) =
           console s @ snd (findSolidityFiles tempDir tree)
             @ concat (map (\<lambda>p. snd (analyze_file w tempDir p)) ?ended)"
    unfolding names scan_success [OF prep] by simp_all
  moreover have "\<forall>k. mset (take BATCH_SIZE (drop (k * BATCH_SIZE) ?ended)) =
                     mset (take BATCH_SIZE (drop (k * BATCH_SIZE) files))"
    by (simp only: completion_sequence_batchwise) simp
  moreover have "mset (List.map_filter (finding_of w tempDir) ?ended) =
                 mset (List.map_filter (finding_of w tempDir) files)"
    by (rule mset_map_filter [OF m])
  ultimately show "\<exists>ended findings s'.
            analyzeGitHubRepo w url s = (Inr findings, s') \<and>
            ended = completion_sequence w files \<and>
            (\<forall>k. mset (take BATCH_SIZE (drop (k * BATCH_SIZE) ended)) =
                  mset (take BATCH_SIZE (drop (k * BATCH_SIZE) files))) \<and>
            mset ended = mset files \<and>
            findings = List.map_filter (finding_of w tempDir) ended \<and>
            mset findings = mset (List.map_filter (finding_of w tempDir) files) \<and>
            console s' = console s @ snd (findSolidityFiles tempDir tree)
                           @ concat (map (\<lambda>p. snd (analyze_file w tempDir p)) ended)"
    using m by blast
next
  assume "fs_readFile w p = Inl e"
  then have t: "analyze_file_try w dir p = Inl e"
    by (simp add: analyze_file_try_def)
  from finding_of_failed [OF t]
  show "finding_of w dir p = None"
    and "snd (analyze_file w dir p) = [''Skipping analysis for '' @ path_relative dir p @ ''.'']" .
next
  assume "fs_readFile w p = Inr content \<and> 50 \<le> length (trim content) \<and>
          getStaticAnalysis w content = Inl e"
  then have t: "analyze_file_try w dir p = Inl e"
    by (simp add: analyze_file_try_def)
  from finding_of_failed [OF t]
  show "finding_of w dir p = None"
    and "snd (analyze_file w dir p) = [''Skipping analysis for '' @ path_relative dir p @ ''.'']" .
next
  assume "fs_readFile w p = Inr content \<and> 50 \<le> length (trim content) \<and>
          getStaticAnalysis w content = Inr a"
  then have t: "analyze_file_try w dir p =
      Inr (Some (JObj [(''file'', JStr (path_relative dir p)), (''analysis'', a)]))"
    by (simp add: analyze_file_try_def)
  from finding_of_done [OF t]
  show "finding_of w dir p =
              Some (JObj [(''file'', JStr (path_relative dir p)), (''analysis'', a)])"
    and "snd (analyze_file w dir p) = []" .
next
  show "findSolidityFiles dir NoReadDir = ([], [''Could not read directory '' @ dir @ '': ''])"
    by simp
next
  show "fst (findSolidityFiles dir node) = fst (findSolidityFiles dir (unreadable_as_empty node))"
    by (rule walk_unreadable_as_empty(1))
qed

lemma repo_dir: "path_join (dirname repo_world) ''temp_repo'' = ''/srv/server/temp_repo''"
  by (simp add: repo_world_def quiet_world_def path_join_def)

lemma sample_ended:
  "completion_sequence repo_world
     [''/srv/server/temp_repo/contracts/Vault.sol'', ''/srv/server/temp_repo/contracts/Broken.sol'',
      ''/srv/server/temp_repo/contracts/Tiny.sol'', ''/srv/server/temp_repo/Token.sol'',
      ''/srv/server/temp_repo/Pool.sol''] =
     [''/srv/server/temp_repo/contracts/Broken.sol'', ''/srv/server/temp_repo/contracts/Tiny.sol'',
      ''/srv/server/temp_repo/Pool.sol'', ''/srv/server/temp_repo/Token.sol'',
      ''/srv/server/temp_repo/contracts/Vault.sol'']"
  by (subst completion_sequence_step)
     (simp_all add: BATCH_SIZE_def completion_order_def repo_world_def)

text \<open>
  The theorem in \<open>quiet_world\<close>, where the clone fails and the scan throws its error,
  and in \<open>repo_world\<close>, where the scan returns: \<open>Pool.sol\<close> and \<open>contracts/Vault.sol\<close>
  yield findings, in the order in which their callbacks end and not in the order of the
  file list; the unreadable directory, the unreadable file and the file whose analysis
  failed are on the console.
\<close>

theorem scan_survives_failures_witness:
  "analyzeGitHubRepo quiet_world ''https://github.com/owner/missing'' idle =
     (Inl (Error ''clone failed''), idle\<lparr>workspace := Some (Dir [])\<rparr>) \<and>
   git_clone quiet_world ''https://github.com/owner/missing'' = Inl (Error ''clone failed'') \<and>
   fs_remove repo_world (workspace idle) = None \<and>
   fs_ensureDir repo_world None = None \<and>
   git_clone repo_world ''https://github.com/owner/repo'' = Inr sample_tree \<and>
   fs_remove repo_world (Some sample_tree) = None \<and>
   fst (findSolidityFiles ''/srv/server/temp_repo'' sample_tree) =
     [''/srv/server/temp_repo/contracts/Vault.sol'', ''/srv/server/temp_repo/contracts/Broken.sol'',
      ''/srv/server/temp_repo/contracts/Tiny.sol'', ''/srv/server/temp_repo/Token.sol'',
      ''/srv/server/temp_repo/Pool.sol''] \<and>
   fs_readFile repo_world ''/srv/server/temp_repo/contracts/Broken.sol'' = Inl (Error ''EACCES'') \<and>
   fs_readFile repo_world ''/srv/server/temp_repo/Token.sol'' = Inr token_source \<and>
   50 \<le> length (trim token_source) \<and>
   getStaticAnalysis repo_world token_source = Inl (Error ''quota exceeded'') \<and>
   fs_readFile repo_world ''/srv/server/temp_repo/contracts/Vault.sol'' = Inr vault_source \<and>
   50 \<le> length (trim vault_source) \<and>
   getStaticAnalysis repo_world vault_source = Inr (JObj []) \<and>
   fs_readFile repo_world ''/srv/server/temp_repo/Pool.sol'' = Inr pool_source \<and>
   50 \<le> length (trim pool_source) \<and>
   getStaticAnalysis repo_world pool_source = Inr (JObj []) \<and>
   (\<exists>s'. analyzeGitHubRepo repo_world ''https://github.com/owner/repo'' idle =
            (Inr [JObj [(''file'', JStr ''Pool.sol''), (''analysis'', JObj [])],
                  JObj [(''file'', JStr ''contracts/Vault.sol''), (''analysis'', JObj [])]], s') \<and>
          console s' =
            [''Could not read directory /srv/server/temp_repo/private: '',
             ''Skipping analysis for contracts/Broken.sol.'',
             ''Skipping analysis for Token.sol.''])"
proof -
  let ?t = "''/srv/server/temp_repo''"
  let ?broken = "''/srv/server/temp_repo/contracts/Broken.sol''"
  let ?token = "''/srv/server/temp_repo/Token.sol''"
  let ?vault = "''/srv/server/temp_repo/contracts/Vault.sol''"
  let ?tiny = "''/srv/server/temp_repo/contracts/Tiny.sol''"
  let ?pool = "''/srv/server/temp_repo/Pool.sol''"
  let ?files = "[?vault, ?broken, ?tiny, ?token, ?pool]"
  have h1: "fs_remove repo_world (workspace idle) = None"
    and h2: "fs_ensureDir repo_world None = None"
    and h3: "git_clone repo_world ''https://github.com/owner/repo'' = Inr sample_tree"
    and h4: "fs_remove repo_world (Some sample_tree) = None"
    by (simp_all add: repo_world_def quiet_world_def)
  have h5: "?t = path_join (dirname repo_world) ''temp_repo''"
    by (simp add: repo_dir)
  have fl: "fst (findSolidityFiles ?t sample_tree) = ?files"
    by (simp add: sample_files)
  have rb: "fs_readFile repo_world ?broken = Inl (Error ''EACCES'')"
    and rt: "fs_readFile repo_world ?token = Inr token_source \<and> 50 \<le> length (trim token_source) \<and>
             getStaticAnalysis repo_world token_source = Inl (Error ''quota exceeded'')"
    and rv: "fs_readFile repo_world ?vault = Inr vault_source \<and> 50 \<le> length (trim vault_source) \<and>
             getStaticAnalysis repo_world vault_source = Inr (JObj [])"
    and rp: "fs_readFile repo_world ?pool = Inr pool_source \<and> 50 \<le> length (trim pool_source) \<and>
             getStaticAnalysis repo_world pool_source = Inr (JObj [])"
    by (simp_all add: repo_world_def getStaticAnalysis_def vault_source_def token_source_def
          pool_source_def trim_def is_js_space_def)
  have h: "fs_remove repo_world (workspace idle) = None \<and> fs_ensureDir repo_world None = None \<and>
    git_clone repo_world ''https://github.com/owner/repo'' = Inr sample_tree \<and>
    fs_remove repo_world (Some sample_tree) = None \<and>
    ?t = path_join (dirname repo_world) ''temp_repo'' \<and>
    ?files = fst (findSolidityFiles ?t sample_tree)"
    using h1 h2 h3 h4 h5 fl by simp
  note inst = scan_survives_failures
  have q: "analyzeGitHubRepo quiet_world ''https://github.com/owner/missing'' idle =
     (Inl (Error ''clone failed''), idle\<lparr>workspace := Some (Dir [])\<rparr>)"
    by (simp add: analyzeGitHubRepo_def quiet_world_def idle_def)
  from inst [where w = quiet_world and url = "''https://github.com/owner/missing''" and s = idle
               and thrown = "Error ''clone failed''"] q
  have src: "git_clone quiet_world ''https://github.com/owner/missing'' = Inl (Error ''clone failed'')"
    by (simp add: quiet_world_def)
  from inst [where w = repo_world and dir = ?t and p = ?broken and e = "Error ''EACCES''"] rb
  have fb: "finding_of repo_world ?t ?broken = None"
    and lb: "snd (analyze_file repo_world ?t ?broken)
               = [''Skipping analysis for '' @ path_relative ?t ?broken @ ''.'']"
    by blast+
  from inst [where w = repo_world and dir = ?t and p = ?token and content = token_source
               and e = "Error ''quota exceeded''"] rt
  have ft: "finding_of repo_world ?t ?token = None"
    and lt: "snd (analyze_file repo_world ?t ?token)
               = [''Skipping analysis for '' @ path_relative ?t ?token @ ''.'']"
    by blast+
  from inst [where w = repo_world and dir = ?t and p = ?vault and content = vault_source
               and a = "JObj []"] rv
  have fv: "finding_of repo_world ?t ?vault =
              Some (JObj [(''file'', JStr (path_relative ?t ?vault)), (''analysis'', JObj [])])"
    and lv: "snd (analyze_file repo_world ?t ?vault) = []"
    by blast+
  from inst [where w = repo_world and dir = ?t and p = ?pool and content = pool_source
               and a = "JObj []"] rp
  have fp: "finding_of repo_world ?t ?pool =
              Some (JObj [(''file'', JStr (path_relative ?t ?pool)), (''analysis'', JObj [])])"
    and lp: "snd (analyze_file repo_world ?t ?pool) = []"
    by blast+
  have fy: "finding_of repo_world ?t ?tiny = None"
    and ly: "snd (analyze_file repo_world ?t ?tiny) = []"
    using finding_of_done [OF sample_try(3)] by simp_all
  from inst [where w = repo_world and url = "''https://github.com/owner/repo''" and s = idle
               and tree = sample_tree and tempDir = ?t and files = ?files] h
  obtain ended findings s' where
    r: "analyzeGitHubRepo repo_world ''https://github.com/owner/repo'' idle = (Inr findings, s')"
    and e: "ended = completion_sequence repo_world ?files"
    and f: "findings = List.map_filter (finding_of repo_world ?t) ended"
    and c: "console s' = console idle @ snd (findSolidityFiles ?t sample_tree)
              @ concat (map (\<lambda>p. snd (analyze_file repo_world ?t p)) ended)"
    by blast
  from e have e': "ended = [?broken, ?tiny, ?pool, ?token, ?vault]"
    by (simp only: sample_ended)
  from f have f': "findings =
      [JObj [(''file'', JStr ''Pool.sol''), (''analysis'', JObj [])],
       JObj [(''file'', JStr ''contracts/Vault.sol''), (''analysis'', JObj [])]]"
    unfolding e' List.map_filter_simps fb ft fv fy fp
    by (simp add: path_relative_def)
  from c have c': "console s' =
            [''Could not read directory /srv/server/temp_repo/private: '',
             ''Skipping analysis for contracts/Broken.sol.'',
             ''Skipping analysis for Token.sol.'']"
    unfolding e' list.map concat.simps lb lt lv ly lp sample_files
    by (simp add: idle_def path_relative_def)
  from r f' c' have "\<exists>s'. analyzeGitHubRepo repo_world ''https://github.com/owner/repo'' idle =
            (Inr [JObj [(''file'', JStr ''Pool.sol''), (''analysis'', JObj [])],
                  JObj [(''file'', JStr ''contracts/Vault.sol''), (''analysis'', JObj [])]], s') \<and>
          console s' =
            [''Could not read directory /srv/server/temp_repo/private: '',
             ''Skipping analysis for contracts/Broken.sol.'',
             ''Skipping analysis for Token.sol.'']"
    by blast
  with q src h1 h2 h3 h4 fl rb rt rv rp show ?thesis by blast
qed

text \<open>
  C5, as the code has it. Whenever a scan returns normally, the workspace directory has
  been removed when it returns; and a scan returns normally whenever the removal at its
  start, the creation of the directory, the clone and the removal at its end succeed.
\<close>

theorem workspace_removed_on_normal_return:
  "(analyzeGitHubRepo w url s = (Inr findings, s') \<longrightarrow> workspace s' = None) \<and>
   (fs_remove w (workspace s) = None \<and> fs_ensureDir w None = None \<and>
    git_clone w url = Inr tree \<and> fs_remove w (Some tree) = None \<longrightarrow>
      (\<exists>findings' s''. analyzeGitHubRepo w url s = (Inr findings', s'') \<and> workspace s'' = None))"
proof (intro conjI impI)
  assume r: "analyzeGitHubRepo w url s = (Inr findings, s')"
  from scan_returns [OF r] obtain tree' where
    "fs_remove w (workspace s) = None" "fs_ensureDir w None = None"
    "git_clone w url = Inr tree'" "fs_remove w (Some tree') = None"
    by blast
  from scan_success [OF this] r show "workspace s' = None" by auto
next
  assume "fs_remove w (workspace s) = None \<and> fs_ensureDir w None = None \<and>
    git_clone w url = Inr tree \<and> fs_remove w (Some tree) = None"
  then have "fs_remove w (workspace s) = None" "fs_ensureDir w None = None"
    "git_clone w url = Inr tree" "fs_remove w (Some tree) = None"
    by simp_all
  from scan_success [OF this]
  show "\<exists>findings' s''. analyzeGitHubRepo w url s = (Inr findings', s'') \<and> workspace s'' = None"
    by simp
qed

text \<open>
  C5 as stated has the workspace removed on every failure as well. In \<open>quiet_world\<close> the
  clone fails: the scan throws the clone's error, \<open>fs.remove\<close> at the end of
  \<open>analyzeGitHubRepo\<close> is not reached, and the directory created by \<open>fs.ensureDir\<close> is
  still there when the invocation has returned.
\<close>

theorem workspace_left_after_failed_clone_counterexample:
  "fst (analyzeGitHubRepo quiet_world ''https://github.com/owner/missing'' idle)
     = Inl (Error ''clone failed'') \<and>
   workspace (snd (analyzeGitHubRepo quiet_world ''https://github.com/owner/missing'' idle))
     = Some (Dir [])"
  by (simp add: analyzeGitHubRepo_def quiet_world_def idle_def)

text \<open>
  The theorem in \<open>repo_world\<close>, starting from a state with a workspace left behind: the
  scan returns normally and the workspace is gone.
\<close>

theorem workspace_removed_on_normal_return_witness:
  "workspace stale = Some (Dir [(''leftover.txt'', File)]) \<and>
   fs_remove repo_world (workspace stale) = None \<and>
   fs_ensureDir repo_world None = None \<and>
   git_clone repo_world ''https://github.com/owner/repo'' = Inr sample_tree \<and>
   fs_remove repo_world (Some sample_tree) = None \<and>
   (\<exists>findings s'. analyzeGitHubRepo repo_world ''https://github.com/owner/repo'' stale
                     = (Inr findings, s') \<and> workspace s' = None)"
proof -
  have h: "fs_remove repo_world (workspace stale) = None \<and>
           fs_ensureDir repo_world None = None \<and>
           git_clone repo_world ''https://github.com/owner/repo'' = Inr sample_tree \<and>
           fs_remove repo_world (Some sample_tree) = None"
    by (simp add: repo_world_def quiet_world_def)
  have st: "workspace stale = Some (Dir [(''leftover.txt'', File)])"
    by (simp add: stale_def idle_def)
  from workspace_removed_on_normal_return
         [of repo_world "''https://github.com/owner/repo''" stale _ _ sample_tree] h
  obtain findings s' where
    r: "analyzeGitHubRepo repo_world ''https://github.com/owner/repo'' stale = (Inr findings, s')"
    by blast
  from workspace_removed_on_normal_return
         [of repo_world "''https://github.com/owner/repo''" stale findings s'] r
  have "workspace s' = None" by blast
  with h st r show ?thesis by blast
qed

end
